theory Spec2Isabelle
  imports Main "HOL-Library.Sublist"
begin

section \<open>Data model of \<open>src/lib/plugin-event-handlers.ts\<close>\<close>

subsection \<open>Envelopes\<close>

text \<open>
  The payloads of \<open>@cucumber/messages\<close> that the handlers read or build. Ids are opaque
  strings compared with \<open>===\<close>. A timestamp is a pair of seconds and nanoseconds.
\<close>

type_synonym Timestamp = "nat \<times> nat"

datatype AttachmentContentEncoding = IDENTITY | BASE64

record Attachment =
  a_testCaseStartedId :: string
  a_testStepId :: string
  a_body :: string
  a_mediaType :: string
  a_contentEncoding :: AttachmentContentEncoding

record GherkinDocument =
  gd_uri :: "string option"

record Implementation =
  impl_version :: string
  impl_name :: string

record Product =
  prod_name :: string
  prod_version :: "string option"

record Meta =
  protocolVersion :: string
  implementation :: Implementation
  cpu :: Product
  os :: Product
  runtime :: Product
  ci :: "string option"

record PickleStep =
  ps_id :: string
  ps_text :: string

record Pickle =
  p_id :: string
  p_uri :: string
  p_steps :: "PickleStep list"

record TestStep =
  ts_id :: string
  pickleStepId :: "string option"
  hookId :: "string option"

record TestCase =
  tc_id :: string
  testSteps :: "TestStep list"

record TestCaseStarted =
  tcs_id :: string
  testCaseId :: string
  tcs_attempt :: nat
  tcs_timestamp :: Timestamp

record TestCaseFinished =
  tcf_testCaseStartedId :: string
  tcf_timestamp :: Timestamp
  tcf_willBeRetried :: bool

record TestStepStarted =
  tss_testCaseStartedId :: string
  tss_testStepId :: string
  tss_timestamp :: Timestamp

record TestStepResult =
  tsr_status :: string
  tsr_message :: "string option"

record TestStepFinished =
  tsf_testCaseStartedId :: string
  tsf_testStepId :: string
  testStepResult :: TestStepResult
  tsf_timestamp :: Timestamp

record TestRunStarted =
  trs_timestamp :: Timestamp

text \<open>
  \<open>messages.TestRunFinished\<close> declares a \<open>success\<close> attribute; \<open>afterRunHandler\<close> builds
  the object without it and casts, so the field is optional here.
\<close>

record TestRunFinished =
  trf_timestamp :: Timestamp
  trf_success :: "bool option"

text \<open>
  \<open>messages.Envelope\<close>: every member is optional. \<open>None\<close> is an absent member.
\<close>

record Envelope =
  attachment :: "Attachment option"
  gherkinDocument :: "GherkinDocument option"
  meta :: "Meta option"
  pickle :: "Pickle option"
  testCase :: "TestCase option"
  testCaseStarted :: "TestCaseStarted option"
  testCaseFinished :: "TestCaseFinished option"
  testStepStarted :: "TestStepStarted option"
  testStepFinished :: "TestStepFinished option"
  testRunStarted :: "TestRunStarted option"
  testRunFinished :: "TestRunFinished option"

definition emptyEnvelope :: Envelope where
  "emptyEnvelope = \<lparr> attachment = None, gherkinDocument = None, meta = None, pickle = None,
     testCase = None, testCaseStarted = None, testCaseFinished = None,
     testStepStarted = None, testStepFinished = None, testRunStarted = None,
     testRunFinished = None \<rparr>"

subsection \<open>The state of the plugin\<close>

text \<open>
  \<open>PrettyEnabled\<close> holds the broadcaster and the writable of one pretty stream; both are
  handles (indices) into the streams of the world below.
\<close>

datatype PrettyState = PrettyDisabled | PrettyEnabled (broadcaster: nat) (writable: nat)

datatype State =
  StateInitial
| StateBeforeSpec PrettyState
| StateReceivedSpecEnvelopes PrettyState "Envelope list"
| StateTestStarted PrettyState "Envelope list" string
| StateStepStarted PrettyState "Envelope list" string string
| StateStepFinished PrettyState "Envelope list" string
| StateTestFinished PrettyState "Envelope list"
| StateAfterSpec

text \<open>The discriminant \<open>state.state\<close>.\<close>

fun state_tag :: "State \<Rightarrow> string" where
  "state_tag StateInitial = ''initial''"
| "state_tag (StateBeforeSpec p) = ''before-spec''"
| "state_tag (StateReceivedSpecEnvelopes p ms) = ''received-envelopes''"
| "state_tag (StateTestStarted p ms c) = ''test-started''"
| "state_tag (StateStepStarted p ms c s) = ''step-started''"
| "state_tag (StateStepFinished p ms c) = ''step-finished''"
| "state_tag (StateTestFinished p ms) = ''test-finished''"
| "state_tag StateAfterSpec = ''after-spec''"

text \<open>\<open>"messages" in state\<close> and \<open>state.messages\<close>.\<close>

fun state_messages :: "State \<Rightarrow> Envelope list option" where
  "state_messages StateInitial = None"
| "state_messages (StateBeforeSpec p) = None"
| "state_messages (StateReceivedSpecEnvelopes p ms) = Some ms"
| "state_messages (StateTestStarted p ms c) = Some ms"
| "state_messages (StateStepStarted p ms c s) = Some ms"
| "state_messages (StateStepFinished p ms c) = Some ms"
| "state_messages (StateTestFinished p ms) = Some ms"
| "state_messages StateAfterSpec = None"

text \<open>\<open>"pretty" in state\<close> and \<open>state.pretty\<close>.\<close>

fun state_pretty :: "State \<Rightarrow> PrettyState option" where
  "state_pretty StateInitial = None"
| "state_pretty (StateBeforeSpec p) = Some p"
| "state_pretty (StateReceivedSpecEnvelopes p ms) = Some p"
| "state_pretty (StateTestStarted p ms c) = Some p"
| "state_pretty (StateStepStarted p ms c s) = Some p"
| "state_pretty (StateStepFinished p ms c) = Some p"
| "state_pretty (StateTestFinished p ms) = Some p"
| "state_pretty StateAfterSpec = None"

subsection \<open>The world the handlers act on\<close>

text \<open>
  A pretty stream records the envelopes emitted on its broadcaster and whether its
  writable was ended. The text the formatter renders is not modelled.
\<close>

record PrettyStream =
  emitted :: "Envelope list"
  ended :: bool

text \<open>
  The module-level variable \<open>state\<close>, the files (path to content; an absent path cannot
  be read), the lines printed with \<open>console.log\<close> and the pretty streams created so far.
  Directories are not modelled, so \<open>fs.mkdir\<close> changes nothing; writes succeed.
\<close>

record World =
  state :: State
  files :: "string \<rightharpoonup> string"
  console :: "string list"
  streams :: "PrettyStream list"

subsection \<open>Errors\<close>

text \<open>
  \<open>CypressCucumberError\<close> carries the message \<open>createStateError\<close> builds. The helpers
  \<open>createError\<close> and \<open>assertAndReturn\<close> are imported; their errors carry the message
  they are called with, \<open>assertAndReturn\<close> raising when the value it is given is
  undefined. \<open>Error\<close> is a plain \<open>Error(...)\<close>, \<open>FsError\<close> a rejected file operation (it
  carries the path), \<open>TypeError\<close> a read of a member of \<open>undefined\<close>.
\<close>

datatype error =
  CypressCucumberError string
| CreatedError string
| AssertionFailed string
| Error string
| FsError string
| TypeError string

fun error_message :: "error \<Rightarrow> string" where
  "error_message (CypressCucumberError m) = m"
| "error_message (CreatedError m) = m"
| "error_message (AssertionFailed m) = m"
| "error_message (Error m) = m"
| "error_message (FsError m) = m"
| "error_message (TypeError m) = m"

subsection \<open>Configuration and imported collaborators\<close>

record PluginConfigOptions =
  isTextTerminal :: bool
  projectRoot :: string

record Toggle =
  enabled :: bool

record Output = Toggle +
  output_path :: string

text \<open>The value \<open>resolve(config, config.env, "/")\<close> returns: \<open>preprocessor.messages\<close> etc.\<close>

record Preprocessor =
  p_messages :: Output
  p_json :: Output
  p_html :: Output
  p_pretty :: Toggle

record Spec =
  spec_name :: string
  relative :: string

record TestResult =
  displayError :: "string option"

record RunResult =
  tests :: "TestResult list"

record ScreenshotDetails =
  path :: string
  takenAt :: string

text \<open>
  What the module imports and this file does not define: the configuration resolver,
  path resolution, \<open>JSON.stringify\<close>, \<open>Buffer.toString("base64")\<close>, the constant
  \<open>homepage\<close>, matching against \<open>HOOK_FAILURE_EXPR\<close>, the facts of the host that go into
  the meta envelope, the two report generators (from the content of the message
  log to the report, or the error they raise), and \<open>assert\<close> as \<open>testStepFinishedHandler\<close>
  calls it, on a boolean and a message: the error it throws, or \<open>None\<close> when it returns.
\<close>

record Externals =
  resolve :: "PluginConfigOptions \<Rightarrow> Preprocessor"
  ensureIsAbsolute :: "string \<Rightarrow> string \<Rightarrow> string"
  stringify :: "Envelope \<Rightarrow> string"
  toBase64 :: "string \<Rightarrow> string"
  homepage :: string
  matchesHookFailure :: "string \<Rightarrow> bool"
  messagesVersion :: string
  packageVersion :: string
  osArch :: string
  osPlatform :: string
  osRelease :: string
  nodeVersion :: string
  detectCiEnvironment :: "string option"
  jsonReport :: "string \<Rightarrow> error + string"
  htmlReport :: "string \<Rightarrow> error + string"
  assertion :: "bool \<Rightarrow> string \<Rightarrow> error option"

section \<open>Helpers\<close>

definition nl :: string where
  "nl = [CHR 0x0A]"

text \<open>\<open>s.endsWith(suffix)\<close> and \<open>s.startsWith(p)\<close>.\<close>

definition endsWith :: "string \<Rightarrow> string \<Rightarrow> bool" where
  "endsWith s sfx = (length sfx \<le> length s \<and> drop (length s - length sfx) s = sfx)"

definition startsWith :: "string \<Rightarrow> string \<Rightarrow> bool" where
  "startsWith s p = (take (length p) s = p)"

text \<open>\<open>s.replace(pat, rep)\<close> with a string pattern: the first occurrence is replaced.\<close>

fun replace :: "string \<Rightarrow> string \<Rightarrow> string \<Rightarrow> string" where
  "replace [] pat rep = (if pat = [] then rep else [])"
| "replace (c # cs) pat rep =
     (if startsWith (c # cs) pat then rep @ drop (length pat) (c # cs)
      else c # replace cs pat rep)"

text \<open>\<open>xs.join(sep)\<close>.\<close>

fun join :: "string list \<Rightarrow> string \<Rightarrow> string" where
  "join [] sep = []"
| "join [x] sep = x"
| "join (x # y # ys) sep = x @ sep @ join (y # ys) sep"

text \<open>\<open>xs.findLastIndex(p)\<close>: the greatest index whose element satisfies \<open>p\<close>, or -1.\<close>

fun findLastIndex :: "('a \<Rightarrow> bool) \<Rightarrow> 'a list \<Rightarrow> int" where
  "findLastIndex p [] = -1"
| "findLastIndex p (x # xs) =
     (let i = findLastIndex p xs
      in if i \<noteq> -1 then i + 1 else if p x then 0 else -1)"

text \<open>\<open>xs.slice(0, i)\<close> for an index \<open>i \<ge> 0\<close>.\<close>

definition slice0 :: "'a list \<Rightarrow> int \<Rightarrow> 'a list" where
  "slice0 xs i = take (nat i) xs"

text \<open>\<open>xs.map(f).filter(notNull)\<close>.\<close>

definition filter_notNull :: "'a option list \<Rightarrow> 'a list" where
  "filter_notNull xs = List.map_filter (\<lambda>x. x) xs"

text \<open>\<open>isFeature\<close>\<close>

definition isFeature :: "Spec \<Rightarrow> bool" where
  "isFeature spec = endsWith (spec_name spec) ''.feature''"

text \<open>
  \<open>createPrettyStream\<close> with \<open>createPrettyFormatter\<close>: a new stream, nothing emitted, not
  ended; its handle is its index.
\<close>

definition createPrettyStream :: "World \<Rightarrow> World \<times> nat" where
  "createPrettyStream w =
     (w\<lparr>streams := streams w @ [\<lparr>emitted = [], ended = False\<rparr>]\<rparr>, length (streams w))"

text \<open>\<open>broadcaster.emit("envelope", message)\<close>\<close>

definition emit :: "nat \<Rightarrow> Envelope \<Rightarrow> World \<Rightarrow> World" where
  "emit h e w =
     (if h < length (streams w)
      then w\<lparr>streams := (streams w)[h := (streams w ! h)\<lparr>emitted := emitted (streams w ! h) @ [e]\<rparr>]\<rparr>
      else w)"

fun emit_all :: "nat \<Rightarrow> Envelope list \<Rightarrow> World \<Rightarrow> World" where
  "emit_all h [] w = w"
| "emit_all h (e # es) w = emit_all h es (emit h e w)"

text \<open>\<open>end(stream)\<close>\<close>

definition end_stream :: "nat \<Rightarrow> World \<Rightarrow> World" where
  "end_stream h w =
     (if h < length (streams w)
      then w\<lparr>streams := (streams w)[h := (streams w ! h)\<lparr>ended := True\<rparr>]\<rparr>
      else w)"

text \<open>\<open>console.log(line)\<close>\<close>

definition console_log :: "string \<Rightarrow> World \<Rightarrow> World" where
  "console_log l w = w\<lparr>console := console w @ [l]\<rparr>"

text \<open>\<open>createStateError\<close>\<close>

definition createStateError :: "Externals \<Rightarrow> string \<Rightarrow> string \<Rightarrow> error" where
  "createStateError ext stateHandler currentState =
     CypressCucumberError
       (''Unexpected state in '' @ stateHandler @ '': '' @ currentState
        @ ''. This almost always means that you or some other plugin, are overwriting this plugin's event handlers. For more information & workarounds, see https://github.com/badeball/cypress-cucumber-preprocessor/blob/master/docs/event-handlers.md (if neither workaround work, please report at ''
        @ homepage ext @ '')'')"

text \<open>\<open>assertAndReturn(value, message)\<close>\<close>

definition assertAndReturn :: "'a option \<Rightarrow> string \<Rightarrow> error + 'a" where
  "assertAndReturn v m = (case v of None \<Rightarrow> Inl (AssertionFailed m) | Some x \<Rightarrow> Inr x)"


text \<open>\<open>fs.writeFile(path, content, { flag: "a" })\<close>\<close>

definition appendFile :: "string \<Rightarrow> string \<Rightarrow> World \<Rightarrow> World" where
  "appendFile p content w =
     w\<lparr>files := (files w)(p \<mapsto> (case files w p of None \<Rightarrow> content | Some old \<Rightarrow> old @ content))\<rparr>"

text \<open>\<open>fs.writeFile(path, content)\<close>\<close>

definition writeFile :: "string \<Rightarrow> string \<Rightarrow> World \<Rightarrow> World" where
  "writeFile p content w = w\<lparr>files := (files w)(p \<mapsto> content)\<rparr>"

section \<open>The run boundary\<close>








section \<open>The spec boundary\<close>

text \<open>\<open>beforeSpecHandler\<close>\<close>

definition beforeSpecHandler ::
  "Externals \<Rightarrow> PluginConfigOptions \<Rightarrow> Spec \<Rightarrow> World \<Rightarrow> World \<times> (error + unit)" where
  "beforeSpecHandler ext config spec w =
     (if \<not> isTextTerminal config \<or> \<not> isFeature spec then (w, Inr ())
      else
        let preprocessor = resolve ext config in
        if \<not> enabled (p_messages preprocessor) \<and> \<not> enabled (p_pretty preprocessor)
        then (w, Inr ())
        else
          let start =
                (if enabled (p_pretty preprocessor)
                 then (let (w1, h) = createPrettyStream w
                       in (w1\<lparr>state := StateBeforeSpec (PrettyEnabled h h)\<rparr>, Inr ()))
                 else (w\<lparr>state := StateBeforeSpec PrettyDisabled\<rparr>, Inr ()))
          in case state w of
               StateInitial \<Rightarrow> start
             | StateAfterSpec \<Rightarrow> start
             | StateBeforeSpec p \<Rightarrow> (w, Inr ())
             | StateStepStarted p ms c s \<Rightarrow> (w, Inr ())
             | _ \<Rightarrow> (w, Inl (createStateError ext ''beforeSpecHandler'' (state_tag (state w)))))"

text \<open>
  \<open>results.tests.some((test) => test.displayError?.match(HOOK_FAILURE_EXPR))\<close>, the
  constant \<open>wasRemainingSkipped\<close> of \<open>afterSpecHandler\<close>.
\<close>

definition wasRemainingSkipped :: "Externals \<Rightarrow> RunResult \<Rightarrow> bool" where
  "wasRemainingSkipped ext r =
     list_ex (\<lambda>test. case displayError test of
                        None \<Rightarrow> False
                      | Some d \<Rightarrow> matchesHookFailure ext d) (tests r)"

text \<open>The notice \<open>afterSpecHandler\<close> prints, without the colour \<open>chalk.yellow\<close> gives it.\<close>

definition hookFailureNotice :: "Spec \<Rightarrow> string" where
  "hookFailureNotice spec =
     ''  Hook failures can't be represented in any reports (messages / json / html), thus none is created for ''
     @ relative spec @ ''.''"

text \<open>\<open>afterSpecHandler\<close>. \<open>results\<close> is \<open>None\<close> when it is undefined.\<close>

definition afterSpecHandler ::
  "Externals \<Rightarrow> PluginConfigOptions \<Rightarrow> Spec \<Rightarrow> RunResult option \<Rightarrow> World
     \<Rightarrow> World \<times> (error + unit)" where
  "afterSpecHandler ext config spec results w =
     (if \<not> isTextTerminal config \<or> \<not> isFeature spec then (w, Inr ())
      else
        let preprocessor = resolve ext config;
            messagesPath =
              ensureIsAbsolute ext (projectRoot config) (output_path (p_messages preprocessor));
            w1 = (case results of
                    None \<Rightarrow> w
                  | Some r \<Rightarrow>
                      if enabled (p_messages preprocessor) then
                        (if wasRemainingSkipped ext r
                         then console_log (hookFailureNotice spec) w
                         else (case state_messages (state w) of
                                 None \<Rightarrow> w
                               | Some ms \<Rightarrow>
                                   appendFile messagesPath
                                     (join (map (stringify ext) ms) nl @ nl) w))
                      else w);
            w2 = (case state_pretty (state w1) of
                    Some (PrettyEnabled b wr) \<Rightarrow> end_stream wr w1
                  | _ \<Rightarrow> w1)
        in (w2\<lparr>state := StateAfterSpec\<rparr>, Inr ()))"

text \<open>\<open>afterScreenshotHandler\<close>: \<open>fs.readFile\<close> fails when the path holds no file.\<close>

definition afterScreenshotHandler ::
  "Externals \<Rightarrow> PluginConfigOptions \<Rightarrow> ScreenshotDetails \<Rightarrow> World
     \<Rightarrow> World \<times> (error + ScreenshotDetails)" where
  "afterScreenshotHandler ext config details w =
     (if \<not> isTextTerminal config then (w, Inr details)
      else
        let preprocessor = resolve ext config in
        if \<not> enabled (p_messages preprocessor) then (w, Inr details)
        else
          (case state w of
             StateStepStarted p ms testCaseStartedId testStepStartedId \<Rightarrow>
               (case files w (path details) of
                  None \<Rightarrow> (w, Inr details)
                | Some buffer \<Rightarrow>
                    let message = emptyEnvelope\<lparr>attachment := Some
                          \<lparr> a_testCaseStartedId = testCaseStartedId,
                            a_testStepId = testStepStartedId,
                            a_body = toBase64 ext buffer,
                            a_mediaType = ''image/png'',
                            a_contentEncoding = BASE64 \<rparr>\<rparr>
                    in (w\<lparr>state := StateStepStarted p (ms @ [message])
                                     testCaseStartedId testStepStartedId\<rparr>,
                        Inr details))
           | _ \<Rightarrow> (w, Inr details)))"


section \<open>The lifecycle handlers\<close>

record ITaskSpecEnvelopes =
  messages :: "Envelope list"

record ITaskCreateStringAttachment =
  data :: string
  mediaType :: string
  encoding :: AttachmentContentEncoding

text \<open>\<open>specEnvelopesHandler\<close>\<close>

definition specEnvelopesHandler ::
  "Externals \<Rightarrow> PluginConfigOptions \<Rightarrow> ITaskSpecEnvelopes \<Rightarrow> World \<Rightarrow> World \<times> (error + bool)" where
  "specEnvelopesHandler ext config d w =
     (if \<not> isTextTerminal config then (w, Inr True)
      else
        (case state w of
           StateBeforeSpec p \<Rightarrow>
             (let w1 = (case p of
                          PrettyEnabled b wr \<Rightarrow> emit_all b (messages d) w
                        | PrettyDisabled \<Rightarrow> w)
              in (w1\<lparr>state := StateReceivedSpecEnvelopes p (messages d)\<rparr>, Inr True))
         | StateStepStarted p ms c s \<Rightarrow>
             (let iTestCaseStarted = findLastIndex (\<lambda>message. testCaseStarted message \<noteq> None) ms
              in if iTestCaseStarted = -1
                 then (w, Inl (CreatedError ''Expected to find a testCaseStarted envelope''))
                 else
                   (case p of
                      PrettyEnabled b wr \<Rightarrow>
                        (let w1 = end_stream wr w;
                             w2 = console_log ''  Reloading..'' w1;
                             w3 = console_log [] w2;
                             (w4, h) = createPrettyStream w3;
                             w5 = emit_all h (messages d) w4
                         in (w5\<lparr>state := StateReceivedSpecEnvelopes (PrettyEnabled h h)
                                             (slice0 ms iTestCaseStarted)\<rparr>,
                             Inr True))
                    | PrettyDisabled \<Rightarrow>
                        (w\<lparr>state := StateReceivedSpecEnvelopes p (slice0 ms iTestCaseStarted)\<rparr>,
                         Inr True)))
         | _ \<Rightarrow> (w, Inl (createStateError ext ''specEnvelopesHandler'' (state_tag (state w))))))"

text \<open>\<open>if (state.pretty.enabled) state.pretty.broadcaster.emit("envelope", e)\<close>\<close>

definition emit_if_pretty :: "PrettyState \<Rightarrow> Envelope \<Rightarrow> World \<Rightarrow> World" where
  "emit_if_pretty p e w = (case p of PrettyEnabled b wr \<Rightarrow> emit b e w | PrettyDisabled \<Rightarrow> w)"

text \<open>\<open>testCaseStartedHandler\<close>\<close>

definition testCaseStartedHandler ::
  "Externals \<Rightarrow> PluginConfigOptions \<Rightarrow> TestCaseStarted \<Rightarrow> World \<Rightarrow> World \<times> (error + bool)" where
  "testCaseStartedHandler ext config d w =
     (if \<not> isTextTerminal config then (w, Inr True)
      else
        let continue = (\<lambda>p ms.
              (let e = emptyEnvelope\<lparr>testCaseStarted := Some d\<rparr>;
                   w1 = emit_if_pretty p e w
               in (w1\<lparr>state := StateTestStarted p (ms @ [e]) (tcs_id d)\<rparr>, Inr True)))
        in case state w of
             StateReceivedSpecEnvelopes p ms \<Rightarrow> continue p ms
           | StateTestFinished p ms \<Rightarrow> continue p ms
           | _ \<Rightarrow> (w, Inl (createStateError ext ''testCaseStartedHandler'' (state_tag (state w)))))"

text \<open>\<open>testStepStartedHandler\<close>\<close>

definition testStepStartedHandler ::
  "Externals \<Rightarrow> PluginConfigOptions \<Rightarrow> TestStepStarted \<Rightarrow> World \<Rightarrow> World \<times> (error + bool)" where
  "testStepStartedHandler ext config d w =
     (if \<not> isTextTerminal config then (w, Inr True)
      else
        let continue = (\<lambda>p ms testCaseStartedId.
              (let e = emptyEnvelope\<lparr>testStepStarted := Some d\<rparr>;
                   w1 = emit_if_pretty p e w
               in (w1\<lparr>state := StateStepStarted p (ms @ [e]) testCaseStartedId
                                    (tss_testStepId d)\<rparr>,
                   Inr True)))
        in case state w of
             StateTestStarted p ms c \<Rightarrow> continue p ms c
           | StateStepFinished p ms c \<Rightarrow> continue p ms c
           | StateStepStarted p ms c s \<Rightarrow> continue p ms c
           | _ \<Rightarrow> (w, Inl (createStateError ext ''testStepStartedHandler'' (state_tag (state w)))))"

text \<open>\<open>testCaseFinishedHandler\<close>\<close>

definition testCaseFinishedHandler ::
  "Externals \<Rightarrow> PluginConfigOptions \<Rightarrow> TestCaseFinished \<Rightarrow> World \<Rightarrow> World \<times> (error + bool)" where
  "testCaseFinishedHandler ext config d w =
     (if \<not> isTextTerminal config then (w, Inr True)
      else
        let continue = (\<lambda>p ms.
              (let e = emptyEnvelope\<lparr>testCaseFinished := Some d\<rparr>;
                   w1 = emit_if_pretty p e w
               in (w1\<lparr>state := StateTestFinished p (ms @ [e])\<rparr>, Inr True)))
        in case state w of
             StateTestStarted p ms c \<Rightarrow> continue p ms
           | StateStepFinished p ms c \<Rightarrow> continue p ms
           | _ \<Rightarrow> (w, Inl (createStateError ext ''testCaseFinishedHandler'' (state_tag (state w)))))"

text \<open>\<open>createStringAttachmentHandler\<close>: \<open>state.messages.push(message)\<close> extends the buffer.\<close>

definition createStringAttachmentHandler ::
  "Externals \<Rightarrow> PluginConfigOptions \<Rightarrow> ITaskCreateStringAttachment \<Rightarrow> World
     \<Rightarrow> World \<times> (error + bool)" where
  "createStringAttachmentHandler ext config att w =
     (if \<not> isTextTerminal config then (w, Inr True)
      else
        let preprocessor = resolve ext config in
        if \<not> enabled (p_messages preprocessor) then (w, Inr True)
        else
          (case state w of
             StateStepStarted p ms testCaseStartedId testStepStartedId \<Rightarrow>
               (let message = emptyEnvelope\<lparr>attachment := Some
                      \<lparr> a_testCaseStartedId = testCaseStartedId,
                        a_testStepId = testStepStartedId,
                        a_body = data att,
                        a_mediaType = mediaType att,
                        a_contentEncoding = encoding att \<rparr>\<rparr>
                in (w\<lparr>state := StateStepStarted p (ms @ [message])
                                 testCaseStartedId testStepStartedId\<rparr>,
                    Inr True))
           | _ \<Rightarrow> (w, Inl (createStateError ext ''createStringAttachmentHandler''
                            (state_tag (state w))))))"

subsection \<open>The step hook and its \<open>attach\<close> capability\<close>

text \<open>
  What a caller may pass to \<open>attach\<close> as data: a string, a \<open>Buffer\<close> (its bytes), or
  anything else. The media type is \<open>None\<close> when it is not given.
\<close>

datatype AttachData = StringData string | BufferData string | OtherData

text \<open>
  The closure \<open>attach(data, mediaType)\<close> of \<open>testStepFinishedHandler\<close>, with the local
  array \<open>attachments\<close> it pushes to passed in and returned.
\<close>

definition attach ::
  "Externals \<Rightarrow> ITaskCreateStringAttachment list \<Rightarrow> AttachData \<Rightarrow> string option
     \<Rightarrow> error + ITaskCreateStringAttachment list" where
  "attach ext attachments d mt =
     (case d of
        StringData s \<Rightarrow>
          (let mt1 = (case mt of None \<Rightarrow> ''text/plain'' | Some m \<Rightarrow> m)
           in if startsWith mt1 ''base64:''
              then Inr (attachments @
                     [\<lparr> data = s, mediaType = replace mt1 ''base64:'' [], encoding = BASE64 \<rparr>])
              else Inr (attachments @
                     [\<lparr> data = s, mediaType = mt1, encoding = IDENTITY \<rparr>]))
      | BufferData b \<Rightarrow>
          (case mt of
             None \<Rightarrow> Inl (Error ''Buffer attachments must specify a media type'')
           | Some m \<Rightarrow>
               Inr (attachments @
                 [\<lparr> data = toBase64 ext b, mediaType = m, encoding = BASE64 \<rparr>]))
      | OtherData \<Rightarrow> Inl (Error ''Invalid attachment data: must be a Buffer or string''))"

text \<open>
  The argument of \<open>onAfterStep\<close> (without \<open>attach\<close>).
\<close>

record AfterStepOptions =
  result :: TestStepResult
  o_pickle :: Pickle
  o_pickleStep :: PickleStep
  o_gherkinDocument :: GherkinDocument
  o_testCaseStartedId :: string
  o_testStepId :: string

text \<open>
  A step hook, as far as the handler sees it. It returns, or it raises an error, or it
  calls \<open>attach\<close> with some data and media type and goes on: one way when the call
  returns, another when the call throws, and there it is handed the error, which it may
  raise again or catch. The hook of a configuration is chosen by the argument it gets.
\<close>

datatype Hook =
  Return
| Raise error
| Attach AttachData "string option" Hook "error \<Rightarrow> Hook"

type_synonym OnAfterStep = "AfterStepOptions \<Rightarrow> Hook"

record StepOptions =
  onAfterStep :: "OnAfterStep option"

text \<open>
  Running a hook against the closure \<open>attach\<close>: the array \<open>attachments\<close> after it, or
  the error it ends with. A call of \<open>attach\<close> that throws has pushed nothing.
\<close>

primrec run_hook ::
  "Hook \<Rightarrow> Externals \<Rightarrow> ITaskCreateStringAttachment list
     \<Rightarrow> error + ITaskCreateStringAttachment list" where
  "run_hook Return ext attachments = Inr attachments"
| "run_hook (Raise e) ext attachments = Inl e"
| "run_hook (Attach d mt continue caught) ext attachments =
     (case attach ext attachments d mt of
        Inr attachments' \<Rightarrow> run_hook continue ext attachments'
      | Inl e \<Rightarrow> run_hook (caught e) ext attachments)"

text \<open>\<open>await options.onAfterStep?.({...})\<close>, from the empty array \<open>attachments\<close>.\<close>

definition run_onAfterStep ::
  "Externals \<Rightarrow> StepOptions \<Rightarrow> AfterStepOptions \<Rightarrow> error + ITaskCreateStringAttachment list" where
  "run_onAfterStep ext options args =
     (case onAfterStep options of
        None \<Rightarrow> Inr []
      | Some hook \<Rightarrow> run_hook (hook args) ext [])"

text \<open>\<open>for (const attachment of attachments) await createStringAttachmentHandler(...)\<close>\<close>

fun create_attachments ::
  "Externals \<Rightarrow> PluginConfigOptions \<Rightarrow> ITaskCreateStringAttachment list \<Rightarrow> World
     \<Rightarrow> World \<times> (error + unit)" where
  "create_attachments ext config [] w = (w, Inr ())"
| "create_attachments ext config (a # as) w =
     (case createStringAttachmentHandler ext config a w of
        (w', Inl e) \<Rightarrow> (w', Inl e)
      | (w', Inr b) \<Rightarrow> create_attachments ext config as w')"

subsection \<open>Resolution of the finished step\<close>

text \<open>
  The lookups of \<open>testStepFinishedHandler\<close>, each \<open>.map(...).filter(notNull).find(...)\<close>
  over the buffer.
\<close>

definition find_testCaseStarted :: "Envelope list \<Rightarrow> string \<Rightarrow> TestCaseStarted option" where
  "find_testCaseStarted ms testCaseStartedId =
     List.find (\<lambda>t. tcs_id t = testCaseStartedId) (filter_notNull (map testCaseStarted ms))"

definition find_testCase :: "Envelope list \<Rightarrow> string \<Rightarrow> TestCase option" where
  "find_testCase ms pickleId =
     List.find (\<lambda>c. tc_id c = pickleId) (filter_notNull (map testCase ms))"

definition find_pickle :: "Envelope list \<Rightarrow> string \<Rightarrow> Pickle option" where
  "find_pickle ms pickleId =
     List.find (\<lambda>p. p_id p = pickleId) (filter_notNull (map pickle ms))"

definition find_gherkinDocument :: "Envelope list \<Rightarrow> string \<Rightarrow> GherkinDocument option" where
  "find_gherkinDocument ms uri =
     List.find (\<lambda>g. gd_uri g = Some uri) (filter_notNull (map gherkinDocument ms))"

text \<open>The first three lookups: the id of the pickle and the test step.\<close>

definition resolve_testStep :: "Envelope list \<Rightarrow> TestStepFinished \<Rightarrow> error + (string \<times> TestStep)" where
  "resolve_testStep ms tsf =
     (case assertAndReturn (find_testCaseStarted ms (tsf_testCaseStartedId tsf))
             ''Expected to find a testCaseStarted'' of
        Inl e \<Rightarrow> Inl e
      | Inr tcs \<Rightarrow>
          (let pickleId = testCaseId tcs
           in case assertAndReturn (find_testCase ms pickleId) ''Expected to find a testCase'' of
                Inl e \<Rightarrow> Inl e
              | Inr tc \<Rightarrow>
                  (case assertAndReturn
                          (List.find (\<lambda>testStep. ts_id testStep = tsf_testStepId tsf) (testSteps tc))
                          ''Expected to find a testStep'' of
                     Inl e \<Rightarrow> Inl e
                   | Inr testStep \<Rightarrow> Inr (pickleId, testStep))))"

text \<open>The lookups of the branch \<open>pickleStepId != null\<close>.\<close>

definition resolve_pickleStep ::
  "Envelope list \<Rightarrow> string \<Rightarrow> string \<Rightarrow> error + (Pickle \<times> PickleStep \<times> GherkinDocument)" where
  "resolve_pickleStep ms pickleId psid =
     (case assertAndReturn (find_pickle ms pickleId) ''Expected to find a pickle'' of
        Inl e \<Rightarrow> Inl e
      | Inr pk \<Rightarrow>
          (case assertAndReturn (List.find (\<lambda>step. ps_id step = psid) (p_steps pk))
                  ''Expected to find a pickleStep'' of
             Inl e \<Rightarrow> Inl e
           | Inr pickleStep \<Rightarrow>
               (case assertAndReturn (find_gherkinDocument ms (p_uri pk))
                       ''Expected to find a gherkinDocument'' of
                  Inl e \<Rightarrow> Inl e
                | Inr doc \<Rightarrow> Inr (pk, pickleStep, doc))))"

text \<open>
  The closing assignment of \<open>testStepFinishedHandler\<close>: it reads \<open>state\<close> again, after
  the attachments were pushed.
\<close>

definition step_finished :: "TestStepFinished \<Rightarrow> World \<Rightarrow> World \<times> (error + bool)" where
  "step_finished tsf w =
     (case state w of
        StateStepStarted p ms c s \<Rightarrow>
          (w\<lparr>state := StateStepFinished p
                         (ms @ [emptyEnvelope\<lparr>testStepFinished := Some tsf\<rparr>]) c\<rparr>,
           Inr True)
      | _ \<Rightarrow> (w, Inl (TypeError ''state.messages'')))"

text \<open>\<open>testStepFinishedHandler\<close>\<close>

definition testStepFinishedHandler ::
  "Externals \<Rightarrow> PluginConfigOptions \<Rightarrow> StepOptions \<Rightarrow> TestStepFinished \<Rightarrow> World
     \<Rightarrow> World \<times> (error + bool)" where
  "testStepFinishedHandler ext config options tsf w =
     (if \<not> isTextTerminal config then (w, Inr True)
      else
        (case state w of
           StateStepStarted p ms c s \<Rightarrow>
             (let w1 = emit_if_pretty p (emptyEnvelope\<lparr>testStepFinished := Some tsf\<rparr>) w
              in case resolve_testStep ms tsf of
                   Inl e \<Rightarrow> (w1, Inl e)
                 | Inr (pickleId, testStep) \<Rightarrow>
                     (case pickleStepId testStep of
                        Some psid \<Rightarrow>
                          (case resolve_pickleStep ms pickleId psid of
                             Inl e \<Rightarrow> (w1, Inl e)
                           | Inr (pk, pickleStep, doc) \<Rightarrow>
                               (case run_onAfterStep ext options
                                       \<lparr> result = testStepResult tsf,
                                         o_pickle = pk,
                                         o_pickleStep = pickleStep,
                                         o_gherkinDocument = doc,
                                         o_testCaseStartedId = tsf_testCaseStartedId tsf,
                                         o_testStepId = tsf_testStepId tsf \<rparr> of
                                  Inl e \<Rightarrow> (w1, Inl e)
                                | Inr attachments \<Rightarrow>
                                    (case create_attachments ext config attachments w1 of
                                       (w2, Inl e) \<Rightarrow> (w2, Inl e)
                                     | (w2, Inr u) \<Rightarrow> step_finished tsf w2)))
                      | None \<Rightarrow>
                          (case assertion ext (hookId testStep \<noteq> None)
                                  ''Expected a hookId in absence of pickleStepId'' of
                             Some e \<Rightarrow> (w1, Inl e)
                           | None \<Rightarrow> step_finished tsf w1)))
         | _ \<Rightarrow> (w, Inl (createStateError ext ''testStepFinishedHandler'' (state_tag (state w))))))"

section \<open>Events\<close>

text \<open>
  The notifications of the orchestrator, each with the arguments of its handler, and the
  call of the handler for an event: the world after the call and the error raised, if
  any.
\<close>

datatype Event =
  SpecAboutToStart Spec
| StaticScenarioDataReceived ITaskSpecEnvelopes
| TestCaseStartedEvent TestCaseStarted
| TestStepStartedEvent TestStepStarted
| TestStepFinishedEvent StepOptions TestStepFinished
| TestCaseFinishedEvent TestCaseFinished
| SpecFinished Spec "RunResult option"
| ScreenshotCaptured ScreenshotDetails
| StringAttachmentRequested ITaskCreateStringAttachment

definition outcome :: "World \<times> (error + 'a) \<Rightarrow> World \<times> error option" where
  "outcome r = (fst r, case snd r of Inl e \<Rightarrow> Some e | Inr v \<Rightarrow> None)"

fun handle :: "Externals \<Rightarrow> PluginConfigOptions \<Rightarrow> Event \<Rightarrow> World \<Rightarrow> World \<times> error option" where
  "handle ext config (SpecAboutToStart spec) w = outcome (beforeSpecHandler ext config spec w)"
| "handle ext config (StaticScenarioDataReceived d) w =
     outcome (specEnvelopesHandler ext config d w)"
| "handle ext config (TestCaseStartedEvent d) w = outcome (testCaseStartedHandler ext config d w)"
| "handle ext config (TestStepStartedEvent d) w = outcome (testStepStartedHandler ext config d w)"
| "handle ext config (TestStepFinishedEvent options d) w =
     outcome (testStepFinishedHandler ext config options d w)"
| "handle ext config (TestCaseFinishedEvent d) w =
     outcome (testCaseFinishedHandler ext config d w)"
| "handle ext config (SpecFinished spec results) w =
     outcome (afterSpecHandler ext config spec results w)"
| "handle ext config (ScreenshotCaptured details) w =
     outcome (afterScreenshotHandler ext config details w)"
| "handle ext config (StringAttachmentRequested att) w =
     outcome (createStringAttachmentHandler ext config att w)"


text \<open>The name of the handler of an event, as the handler gives it to \<open>createStateError\<close>.\<close>

fun handler_name :: "Event \<Rightarrow> string" where
  "handler_name (SpecAboutToStart spec) = ''beforeSpecHandler''"
| "handler_name (StaticScenarioDataReceived d) = ''specEnvelopesHandler''"
| "handler_name (TestCaseStartedEvent d) = ''testCaseStartedHandler''"
| "handler_name (TestStepStartedEvent d) = ''testStepStartedHandler''"
| "handler_name (TestStepFinishedEvent options d) = ''testStepFinishedHandler''"
| "handler_name (TestCaseFinishedEvent d) = ''testCaseFinishedHandler''"
| "handler_name (SpecFinished spec results) = ''afterSpecHandler''"
| "handler_name (ScreenshotCaptured details) = ''afterScreenshotHandler''"
| "handler_name (StringAttachmentRequested att) = ''createStringAttachmentHandler''"

section \<open>The transition table as the specification words it\<close>

text \<open>
  The table of section 4.1 of the specification: the states an event is legal from, by
  the names the code gives the states (the state \<open>received-scenario-data\<close> of the
  specification is \<open>received-envelopes\<close>).
\<close>

fun spec_legal :: "Event \<Rightarrow> string \<Rightarrow> bool" where
  "spec_legal (SpecAboutToStart spec) s =
     (s \<in> set [''initial'', ''after-spec'', ''before-spec'', ''step-started''])"
| "spec_legal (StaticScenarioDataReceived d) s = (s \<in> set [''before-spec'', ''step-started''])"
| "spec_legal (TestCaseStartedEvent d) s = (s \<in> set [''received-envelopes'', ''test-finished''])"
| "spec_legal (TestStepStartedEvent d) s =
     (s \<in> set [''test-started'', ''step-finished'', ''step-started''])"
| "spec_legal (TestStepFinishedEvent options d) s = (s = ''step-started'')"
| "spec_legal (TestCaseFinishedEvent d) s = (s \<in> set [''test-started'', ''step-finished''])"
| "spec_legal (SpecFinished spec results) s = True"
| "spec_legal (ScreenshotCaptured details) s = (s = ''step-started'')"
| "spec_legal (StringAttachmentRequested att) s = (s = ''step-started'')"

text \<open>
  The checks a handler makes before it looks at the state, beyond the text-terminal
  mode: \<open>beforeSpecHandler\<close> returns for a spec that is not a feature and when neither
  message nor pretty output is enabled, \<open>createStringAttachmentHandler\<close> returns when
  message output is not enabled. \<open>afterSpecHandler\<close> and \<open>afterScreenshotHandler\<close> never
  raise a state error.
\<close>

fun reaches_state_check :: "Externals \<Rightarrow> PluginConfigOptions \<Rightarrow> Event \<Rightarrow> bool" where
  "reaches_state_check ext config (SpecAboutToStart spec) =
     (isFeature spec \<and> (enabled (p_messages (resolve ext config))
                          \<or> enabled (p_pretty (resolve ext config))))"
| "reaches_state_check ext config (StringAttachmentRequested att) =
     enabled (p_messages (resolve ext config))"
| "reaches_state_check ext config (SpecFinished spec results) = False"
| "reaches_state_check ext config (ScreenshotCaptured details) = False"
| "reaches_state_check ext config ev = True"

section \<open>Lookups as the specification words them\<close>

text \<open>
  Section 4.1 of the specification describes the lookups of the resolution as scanning
  from the end of the buffer, the last match winning. This is that lookup, to compare
  with \<open>find_testCaseStarted\<close> and \<open>find_pickle\<close> above.
\<close>

definition last_matching :: "('a \<Rightarrow> bool) \<Rightarrow> 'a list \<Rightarrow> 'a option" where
  "last_matching P xs = List.find P (rev xs)"


section \<open>Example values\<close>

text \<open>
  A host, a configuration and a small feature (one document, one pickle with one step,
  its test case) on which the theorems below are instantiated.
\<close>

definition ex_stringify :: "Envelope \<Rightarrow> string" where
  "ex_stringify e =
     (if meta e \<noteq> None then ''meta''
      else if testRunStarted e \<noteq> None then ''testRunStarted''
      else if testRunFinished e \<noteq> None then ''testRunFinished''
      else if testCaseStarted e \<noteq> None then ''testCaseStarted''
      else if testStepStarted e \<noteq> None then ''testStepStarted''
      else if testStepFinished e \<noteq> None then ''testStepFinished''
      else if testCaseFinished e \<noteq> None then ''testCaseFinished''
      else if attachment e \<noteq> None then ''attachment''
      else ''source'')"

definition ex_externals :: "bool \<Rightarrow> bool \<Rightarrow> Externals" where
  "ex_externals messagesEnabled prettyEnabled =
     \<lparr> resolve = (\<lambda>config.
         \<lparr> p_messages = \<lparr> enabled = messagesEnabled, output_path = ''messages.ndjson'' \<rparr>,
           p_json = \<lparr> enabled = False, output_path = ''report.json'' \<rparr>,
           p_html = \<lparr> enabled = False, output_path = ''report.html'' \<rparr>,
           p_pretty = \<lparr> enabled = prettyEnabled \<rparr> \<rparr>),
       ensureIsAbsolute = (\<lambda>root p. root @ ''/'' @ p),
       stringify = ex_stringify,
       toBase64 = (\<lambda>bytes. if bytes = ''ABC'' then ''QUJD'' else []),
       homepage = ''https://github.com/badeball/cypress-cucumber-preprocessor'',
       matchesHookFailure = (\<lambda>message. startsWith message ''Because this error occurred during a''),
       messagesVersion = ''22.0.0'',
       packageVersion = ''18.0.0'',
       osArch = ''x64'',
       osPlatform = ''linux'',
       osRelease = ''6.1'',
       nodeVersion = ''20.0.0'',
       detectCiEnvironment = None,
       jsonReport = (\<lambda>content. Inr ''[]''),
       htmlReport = (\<lambda>content. Inr ''<html/>''),
       assertion = (\<lambda>holds message. None) \<rparr>"

definition ex_config :: PluginConfigOptions where
  "ex_config = \<lparr> isTextTerminal = True, projectRoot = ''/project'' \<rparr>"

definition ex_world :: "State \<Rightarrow> World" where
  "ex_world st = \<lparr> state = st, files = Map.empty, console = [], streams = [] \<rparr>"

definition ex_details :: ScreenshotDetails where
  "ex_details = \<lparr> path = ''/shots/a.png'', takenAt = ''2024-01-01'' \<rparr>"

definition ex_document :: Envelope where
  "ex_document = emptyEnvelope\<lparr>gherkinDocument := Some \<lparr> gd_uri = Some ''a.feature'' \<rparr>\<rparr>"

definition ex_pickle :: Pickle where
  "ex_pickle = \<lparr> p_id = ''pk1'', p_uri = ''a.feature'',
                  p_steps = [\<lparr> ps_id = ''ps1'', ps_text = ''a step'' \<rparr>] \<rparr>"

definition ex_testCase :: TestCase where
  "ex_testCase = \<lparr> tc_id = ''pk1'',
                    testSteps = [\<lparr> ts_id = ''st1'', pickleStepId = Some ''ps1'', hookId = None \<rparr>] \<rparr>"

definition ex_source :: "Envelope list" where
  "ex_source = [ex_document, emptyEnvelope\<lparr>pickle := Some ex_pickle\<rparr>,
                emptyEnvelope\<lparr>testCase := Some ex_testCase\<rparr>]"

definition ex_testCaseStarted :: TestCaseStarted where
  "ex_testCaseStarted =
     \<lparr> tcs_id = ''tcs1'', testCaseId = ''pk1'', tcs_attempt = 0, tcs_timestamp = (1, 0) \<rparr>"

definition ex_testStepStarted :: TestStepStarted where
  "ex_testStepStarted =
     \<lparr> tss_testCaseStartedId = ''tcs1'', tss_testStepId = ''st1'', tss_timestamp = (2, 0) \<rparr>"

definition ex_testStepFinished :: TestStepFinished where
  "ex_testStepFinished =
     \<lparr> tsf_testCaseStartedId = ''tcs1'', tsf_testStepId = ''st1'',
       testStepResult = \<lparr> tsr_status = ''PASSED'', tsr_message = None \<rparr>,
       tsf_timestamp = (3, 0) \<rparr>"

definition ex_testCaseFinished :: TestCaseFinished where
  "ex_testCaseFinished =
     \<lparr> tcf_testCaseStartedId = ''tcs1'', tcf_timestamp = (4, 0), tcf_willBeRetried = False \<rparr>"

text \<open>The buffer while the step of the example is open.\<close>

definition ex_open_buffer :: "Envelope list" where
  "ex_open_buffer =
     ex_source @ [emptyEnvelope\<lparr>testCaseStarted := Some ex_testCaseStarted\<rparr>,
                  emptyEnvelope\<lparr>testStepStarted := Some ex_testStepStarted\<rparr>]"

definition ex_open_state :: State where
  "ex_open_state = StateStepStarted PrettyDisabled ex_open_buffer ''tcs1'' ''st1''"

text \<open>The buffer after an earlier test case of the same spec has finished.\<close>

definition ex_finished_buffer :: "Envelope list" where
  "ex_finished_buffer =
     ex_source @
     [emptyEnvelope\<lparr>testCaseStarted := Some
        \<lparr> tcs_id = ''tcs0'', testCaseId = ''pk0'', tcs_attempt = 0, tcs_timestamp = (0, 1) \<rparr>\<rparr>,
      emptyEnvelope\<lparr>testCaseFinished := Some
        \<lparr> tcf_testCaseStartedId = ''tcs0'', tcf_timestamp = (0, 2), tcf_willBeRetried = False \<rparr>\<rparr>]"

text \<open>Two started test cases with one id, and two pickles with one id.\<close>

definition ex_second_started :: TestCaseStarted where
  "ex_second_started =
     \<lparr> tcs_id = ''tcs1'', testCaseId = ''pk2'', tcs_attempt = 1, tcs_timestamp = (5, 0) \<rparr>"

definition ex_second_pickle :: Pickle where
  "ex_second_pickle = \<lparr> p_id = ''pk1'', p_uri = ''b.feature'', p_steps = [] \<rparr>"

definition ex_duplicates :: "Envelope list" where
  "ex_duplicates =
     ex_source @
     [emptyEnvelope\<lparr>testCaseStarted := Some ex_testCaseStarted\<rparr>,
      emptyEnvelope\<lparr>pickle := Some ex_second_pickle\<rparr>,
      emptyEnvelope\<lparr>testCaseStarted := Some ex_second_started\<rparr>]"


definition ex_feature :: Spec where
  "ex_feature = \<lparr> spec_name = ''a.feature'', relative = ''e2e/a.feature'' \<rparr>"

definition ex_not_feature :: Spec where
  "ex_not_feature = \<lparr> spec_name = ''login.cy.ts'', relative = ''e2e/login.cy.ts'' \<rparr>"

definition ex_hook_failure :: RunResult where
  "ex_hook_failure =
     \<lparr> tests = [\<lparr> displayError = None \<rparr>,
                \<lparr> displayError = Some ''Because this error occurred during a before each hook'' \<rparr>] \<rparr>"

definition ex_interactive_config :: PluginConfigOptions where
  "ex_interactive_config = \<lparr> isTextTerminal = False, projectRoot = ''/project'' \<rparr>"




section \<open>Auxiliary lemmas\<close>

lemma replace_prefix: "replace (p @ s) p r = r @ s" if "p \<noteq> []"
  using that by (cases p) (simp_all add: startsWith_def)

lemma startsWith_append: "startsWith (p @ s) p"
  by (simp add: startsWith_def)

lemma attach_text_base64:
  "attach ext atts (StringData body) (Some (''base64:'' @ mt)) =
     Inr (atts @ [\<lparr> data = body, mediaType = mt, encoding = BASE64 \<rparr>])"
proof -
  have "replace (''base64:'' @ mt) ''base64:'' [] = mt"
    using replace_prefix [of "''base64:''" mt "[]"] by simp
  then show ?thesis
    unfolding attach_def using startsWith_append [of "''base64:''" mt] by simp
qed

lemma attach_text_default:
  "attach ext atts (StringData body) None =
     Inr (atts @ [\<lparr> data = body, mediaType = ''text/plain'', encoding = IDENTITY \<rparr>])"
  by (simp add: attach_def startsWith_def)

lemma attach_buffer_no_media_type:
  "attach ext atts (BufferData b) None = Inl (Error ''Buffer attachments must specify a media type'')"
  by (simp add: attach_def)

lemma attach_buffer_media_type:
  "attach ext atts (BufferData b) (Some m) =
     Inr (atts @ [\<lparr> data = toBase64 ext b, mediaType = m, encoding = BASE64 \<rparr>])"
  by (simp add: attach_def)

lemma state_emit [simp]: "state (emit h e w) = state w"
  by (simp add: emit_def)

lemma state_emit_if_pretty [simp]: "state (emit_if_pretty p e w) = state w"
  by (simp add: emit_if_pretty_def split: PrettyState.split)

lemma createStringAttachmentHandler_step_started:
  "state w = StateStepStarted p ms c s \<Longrightarrow>
   createStringAttachmentHandler ext config att w =
     (if isTextTerminal config \<and> enabled (p_messages (resolve ext config))
      then (w\<lparr>state := StateStepStarted p
                (ms @ [emptyEnvelope\<lparr>attachment := Some
                   \<lparr> a_testCaseStartedId = c, a_testStepId = s, a_body = data att,
                     a_mediaType = mediaType att, a_contentEncoding = encoding att \<rparr>\<rparr>]) c s\<rparr>,
            Inr True)
      else (w, Inr True))"
  by (simp add: createStringAttachmentHandler_def Let_def)

lemma screenshot_other_state:
  "state_tag (state w) \<noteq> ''step-started'' \<Longrightarrow>
   afterScreenshotHandler ext config details w = (w, Inr details)"
  by (cases "state w") (simp_all add: afterScreenshotHandler_def Let_def)

lemma ex_resolve_testStep:
  "resolve_testStep ex_open_buffer ex_testStepFinished =
     Inr (''pk1'', \<lparr> ts_id = ''st1'', pickleStepId = Some ''ps1'', hookId = None \<rparr>)"
  by (simp add: resolve_testStep_def find_testCaseStarted_def find_testCase_def
        filter_notNull_def List.map_filter_def assertAndReturn_def ex_open_buffer_def
        ex_source_def ex_document_def ex_pickle_def ex_testCase_def ex_testCaseStarted_def
        ex_testStepStarted_def ex_testStepFinished_def emptyEnvelope_def)

lemma ex_resolve_pickleStep:
  "resolve_pickleStep ex_open_buffer ''pk1'' ''ps1'' =
     Inr (ex_pickle, \<lparr> ps_id = ''ps1'', ps_text = ''a step'' \<rparr>, \<lparr> gd_uri = Some ''a.feature'' \<rparr>)"
  by (simp add: resolve_pickleStep_def find_pickle_def find_gherkinDocument_def
        filter_notNull_def List.map_filter_def assertAndReturn_def ex_open_buffer_def
        ex_source_def ex_document_def ex_pickle_def ex_testCase_def ex_testCaseStarted_def
        ex_testStepStarted_def emptyEnvelope_def)



lemma find_map_filter_first:
  "f e = Some t \<Longrightarrow> P t \<Longrightarrow> \<forall>m\<in>set pre. \<forall>t'. f m = Some t' \<longrightarrow> \<not> P t' \<Longrightarrow>
   List.find P (List.map_filter f (pre @ e # post)) = Some t"
  by (induction pre) (auto simp add: List.map_filter_simps split: option.splits)

lemma filter_notNull_map: "filter_notNull (map f xs) = List.map_filter f xs"
  by (induction xs) (simp_all add: filter_notNull_def List.map_filter_simps split: option.split)

lemma beforeSpecHandler_illegal:
  "isTextTerminal config \<Longrightarrow> isFeature spec \<Longrightarrow>
   enabled (p_messages (resolve ext config)) \<or> enabled (p_pretty (resolve ext config)) \<Longrightarrow>
   state_tag (state w) \<notin> set [''initial'', ''after-spec'', ''before-spec'', ''step-started''] \<Longrightarrow>
   beforeSpecHandler ext config spec w =
     (w, Inl (createStateError ext ''beforeSpecHandler'' (state_tag (state w))))"
  by (cases "state w") (auto simp add: beforeSpecHandler_def Let_def)

lemma specEnvelopesHandler_illegal:
  "isTextTerminal config \<Longrightarrow>
   state_tag (state w) \<notin> set [''before-spec'', ''step-started''] \<Longrightarrow>
   specEnvelopesHandler ext config d w =
     (w, Inl (createStateError ext ''specEnvelopesHandler'' (state_tag (state w))))"
  by (cases "state w") (simp_all add: specEnvelopesHandler_def)

lemma testCaseStartedHandler_illegal:
  "isTextTerminal config \<Longrightarrow>
   state_tag (state w) \<notin> set [''received-envelopes'', ''test-finished''] \<Longrightarrow>
   testCaseStartedHandler ext config d w =
     (w, Inl (createStateError ext ''testCaseStartedHandler'' (state_tag (state w))))"
  by (cases "state w") (simp_all add: testCaseStartedHandler_def Let_def)

lemma testStepStartedHandler_illegal:
  "isTextTerminal config \<Longrightarrow>
   state_tag (state w) \<notin> set [''test-started'', ''step-finished'', ''step-started''] \<Longrightarrow>
   testStepStartedHandler ext config d w =
     (w, Inl (createStateError ext ''testStepStartedHandler'' (state_tag (state w))))"
  by (cases "state w") (simp_all add: testStepStartedHandler_def Let_def)

lemma testStepFinishedHandler_illegal:
  "isTextTerminal config \<Longrightarrow> state_tag (state w) \<noteq> ''step-started'' \<Longrightarrow>
   testStepFinishedHandler ext config options d w =
     (w, Inl (createStateError ext ''testStepFinishedHandler'' (state_tag (state w))))"
  by (cases "state w") (simp_all add: testStepFinishedHandler_def)

lemma testCaseFinishedHandler_illegal:
  "isTextTerminal config \<Longrightarrow>
   state_tag (state w) \<notin> set [''test-started'', ''step-finished''] \<Longrightarrow>
   testCaseFinishedHandler ext config d w =
     (w, Inl (createStateError ext ''testCaseFinishedHandler'' (state_tag (state w))))"
  by (cases "state w") (simp_all add: testCaseFinishedHandler_def Let_def)

lemma createStringAttachmentHandler_illegal:
  "isTextTerminal config \<Longrightarrow> enabled (p_messages (resolve ext config)) \<Longrightarrow>
   state_tag (state w) \<noteq> ''step-started'' \<Longrightarrow>
   createStringAttachmentHandler ext config att w =
     (w, Inl (createStateError ext ''createStringAttachmentHandler'' (state_tag (state w))))"
  by (cases "state w") (simp_all add: createStringAttachmentHandler_def Let_def)

lemma createStateError_names:
  "prefix (''Unexpected state in '' @ stateHandler @ '': '' @ currentState)
     (error_message (createStateError ext stateHandler currentState))"
  by (simp add: createStateError_def)

lemma end_stream_fields [simp]:
  "state (end_stream h w) = state w" "files (end_stream h w) = files w"
  "console (end_stream h w) = console w"
  by (simp_all add: end_stream_def)

lemma end_stream_ended:
  "h < length (streams w) \<Longrightarrow> ended (streams (end_stream h w) ! h)"
  by (simp add: end_stream_def)

lemma console_log_fields [simp]:
  "state (console_log l w) = state w" "files (console_log l w) = files w"
  "streams (console_log l w) = streams w" "console (console_log l w) = console w @ [l]"
  by (simp_all add: console_log_def)

lemma appendFile_fields [simp]:
  "state (appendFile f c w) = state w" "console (appendFile f c w) = console w"
  "streams (appendFile f c w) = streams w"
  "files (appendFile f c w) =
     (files w)(f \<mapsto> (case files w f of None \<Rightarrow> c | Some old \<Rightarrow> old @ c))"
  by (simp_all add: appendFile_def)

text \<open>The world after the first block of \<open>afterSpecHandler\<close>.\<close>

lemma afterSpecHandler_run:
  assumes "isTextTerminal config" and "isFeature spec"
  shows "\<exists>w1. afterSpecHandler ext config spec results w =
           ((case state_pretty (state w) of
               Some (PrettyEnabled b wr) \<Rightarrow> end_stream wr w1
             | _ \<Rightarrow> w1)\<lparr>state := StateAfterSpec\<rparr>, Inr ())
         \<and> state w1 = state w \<and> streams w1 = streams w
         \<and> w1 = (case results of
                   None \<Rightarrow> w
                 | Some r \<Rightarrow>
                     if enabled (p_messages (resolve ext config)) then
                       (if wasRemainingSkipped ext r
                        then console_log (hookFailureNotice spec) w
                        else (case state_messages (state w) of
                                None \<Rightarrow> w
                              | Some ms \<Rightarrow>
                                  appendFile
                                    (ensureIsAbsolute ext (projectRoot config)
                                       (output_path (p_messages (resolve ext config))))
                                    (join (map (stringify ext) ms) nl @ nl) w))
                     else w)"
  using assms
  by (auto simp add: afterSpecHandler_def Let_def split: option.splits)

lemma ex_feature_isFeature: "isFeature ex_feature" "\<not> isFeature ex_not_feature"
  by (simp_all add: isFeature_def endsWith_def ex_feature_def ex_not_feature_def)

lemma ex_enabled [simp]:
  "enabled (p_messages (resolve (ex_externals m p) config)) = m"
  "enabled (p_pretty (resolve (ex_externals m p) config)) = p"
  by (simp_all add: ex_externals_def)

lemma ex_messagesPath [simp]:
  "ensureIsAbsolute (ex_externals m p) (projectRoot ex_config)
     (output_path (p_messages (resolve (ex_externals m p) ex_config))) = ''/project/messages.ndjson''"
  by (simp add: ex_externals_def ex_config_def)

lemma create_attachments_step_started:
  "state w = StateStepStarted p ms c s \<Longrightarrow>
   \<exists>w'. create_attachments ext config atts w = (w', Inr ())
     \<and> state w' = StateStepStarted p
         (ms @ (if isTextTerminal config \<and> enabled (p_messages (resolve ext config))
                then map (\<lambda>att. emptyEnvelope\<lparr>attachment := Some
                       \<lparr> a_testCaseStartedId = c, a_testStepId = s, a_body = data att,
                         a_mediaType = mediaType att, a_contentEncoding = encoding att \<rparr>\<rparr>) atts
                else [])) c s"
proof (induction atts arbitrary: w ms)
  case Nil
  then show ?case by simp
next
  case (Cons a atts)
  show ?case
  proof (cases "isTextTerminal config \<and> enabled (p_messages (resolve ext config))")
    case True
    let ?e = "emptyEnvelope\<lparr>attachment := Some
                       \<lparr> a_testCaseStartedId = c, a_testStepId = s, a_body = data a,
                         a_mediaType = mediaType a, a_contentEncoding = encoding a \<rparr>\<rparr>"
    let ?w = "w\<lparr>state := StateStepStarted p (ms @ [?e]) c s\<rparr>"
    have one: "createStringAttachmentHandler ext config a w = (?w, Inr True)"
      using createStringAttachmentHandler_step_started [OF Cons.prems, of ext config a] True
      by simp
    have "state ?w = StateStepStarted p (ms @ [?e]) c s" by simp
    from Cons.IH [OF this] True one show ?thesis by auto
  next
    case False
    have one: "createStringAttachmentHandler ext config a w = (w, Inr True)"
      using createStringAttachmentHandler_step_started [OF Cons.prems, of ext config a] False
      by auto
    from Cons.IH [OF Cons.prems] False one show ?thesis by auto
  qed
qed

lemma step_finished_step_started:
  "state w = StateStepStarted p ms c s \<Longrightarrow>
   step_finished tsf w =
     (w\<lparr>state := StateStepFinished p (ms @ [emptyEnvelope\<lparr>testStepFinished := Some tsf\<rparr>]) c\<rparr>,
      Inr True)"
  by (simp add: step_finished_def)

lemma writeFile_fields [simp]:
  "state (writeFile f c w) = state w" "console (writeFile f c w) = console w"
  "streams (writeFile f c w) = streams w" "files (writeFile f c w) = (files w)(f \<mapsto> c)"
  by (simp_all add: writeFile_def)





lemma run_hook_text_base64:
  "run_hook (Attach (StringData body) (Some (''base64:'' @ mt)) continue caught) ext atts =
     run_hook continue ext (atts @ [\<lparr> data = body, mediaType = mt, encoding = BASE64 \<rparr>])"
  by (simp only: run_hook.simps attach_text_base64 sum.case)

lemma run_hook_text_default:
  "run_hook (Attach (StringData body) None continue caught) ext atts =
     run_hook continue ext (atts @ [\<lparr> data = body, mediaType = ''text/plain'', encoding = IDENTITY \<rparr>])"
  by (simp add: attach_text_default)

lemma run_hook_buffer_media_type:
  "run_hook (Attach (BufferData b) (Some m) continue caught) ext atts =
     run_hook continue ext (atts @ [\<lparr> data = toBase64 ext b, mediaType = m, encoding = BASE64 \<rparr>])"
  by (simp add: attach_buffer_media_type)

lemma run_hook_buffer_rejected:
  "run_hook (Attach (BufferData b) None continue caught) ext atts =
     run_hook (caught (Error ''Buffer attachments must specify a media type'')) ext atts"
  by (simp add: attach_buffer_no_media_type)

lemma attach_extends:
  "attach ext atts d mt = Inr atts' \<Longrightarrow> \<exists>a. atts' = atts @ [a]"
  by (auto simp add: attach_def Let_def split: AttachData.splits option.splits if_splits)

lemma run_hook_keeps:
  "run_hook h ext atts = Inr recorded \<Longrightarrow> \<exists>more. recorded = atts @ more"
proof (induction h arbitrary: atts)
  case Return
  then show ?case by simp
next
  case (Raise e)
  then show ?case by simp
next
  case (Attach d mt continue caught)
  show ?case
  proof (cases "attach ext atts d mt")
    case (Inl e)
    with Attach.prems have "run_hook (caught e) ext atts = Inr recorded" by simp
    then show ?thesis by (rule Attach.IH(2) [OF rangeI])
  next
    case (Inr atts')
    with Attach.prems have "run_hook continue ext atts' = Inr recorded" by simp
    then obtain more where "recorded = atts' @ more" using Attach.IH(1) by blast
    moreover obtain a where "atts' = atts @ [a]" using attach_extends [OF Inr] by blast
    ultimately show ?thesis by simp
  qed
qed

text \<open>The finished step of a pickle, when the hook returns.\<close>

lemma testStepFinishedHandler_pickle_step:
  assumes "isTextTerminal config" and "state w = StateStepStarted p ms c s"
    and "resolve_testStep ms tsf = Inr (pickleId, testStep)"
    and "pickleStepId testStep = Some psid"
    and "resolve_pickleStep ms pickleId psid = Inr (pk, pickleStep, doc)"
    and "run_onAfterStep ext options
           \<lparr> result = testStepResult tsf, o_pickle = pk, o_pickleStep = pickleStep,
             o_gherkinDocument = doc, o_testCaseStartedId = tsf_testCaseStartedId tsf,
             o_testStepId = tsf_testStepId tsf \<rparr> = Inr recorded"
  shows "snd (testStepFinishedHandler ext config options tsf w) = Inr True
     \<and> state (fst (testStepFinishedHandler ext config options tsf w)) =
         StateStepFinished p
           (ms @ (if enabled (p_messages (resolve ext config))
                  then map (\<lambda>att. emptyEnvelope\<lparr>attachment := Some
                         \<lparr> a_testCaseStartedId = c, a_testStepId = s, a_body = data att,
                           a_mediaType = mediaType att, a_contentEncoding = encoding att \<rparr>\<rparr>)
                         recorded
                  else [])
               @ [emptyEnvelope\<lparr>testStepFinished := Some tsf\<rparr>]) c"
proof -
  let ?w1 = "emit_if_pretty p (emptyEnvelope\<lparr>testStepFinished := Some tsf\<rparr>) w"
  let ?atts = "if isTextTerminal config \<and> enabled (p_messages (resolve ext config))
                then map (\<lambda>att. emptyEnvelope\<lparr>attachment := Some
                       \<lparr> a_testCaseStartedId = c, a_testStepId = s, a_body = data att,
                         a_mediaType = mediaType att, a_contentEncoding = encoding att \<rparr>\<rparr>) recorded
                else []"
  have st1: "state ?w1 = StateStepStarted p ms c s"
    using assms(2) by simp
  obtain w2 where c2: "create_attachments ext config recorded ?w1 = (w2, Inr ())"
    and st2: "state w2 = StateStepStarted p (ms @ ?atts) c s"
    using create_attachments_step_started [OF st1, of ext config recorded] by blast
  have "testStepFinishedHandler ext config options tsf w = step_finished tsf w2"
    using assms c2 by (simp add: testStepFinishedHandler_def Let_def)
  then show ?thesis
    using step_finished_step_started [OF st2, of tsf] assms(1) by simp
qed

text \<open>The finished step of a pickle, when the hook ends with an error.\<close>

lemma testStepFinishedHandler_hook_error:
  assumes "isTextTerminal config" and "state w = StateStepStarted p ms c s"
    and "resolve_testStep ms tsf = Inr (pickleId, testStep)"
    and "pickleStepId testStep = Some psid"
    and "resolve_pickleStep ms pickleId psid = Inr (pk, pickleStep, doc)"
    and "run_onAfterStep ext options
           \<lparr> result = testStepResult tsf, o_pickle = pk, o_pickleStep = pickleStep,
             o_gherkinDocument = doc, o_testCaseStartedId = tsf_testCaseStartedId tsf,
             o_testStepId = tsf_testStepId tsf \<rparr> = Inl e"
  shows "testStepFinishedHandler ext config options tsf w =
           (emit_if_pretty p (emptyEnvelope\<lparr>testStepFinished := Some tsf\<rparr>) w, Inl e)"
  using assms by (simp add: testStepFinishedHandler_def Let_def)

text \<open>The finished step of a hook.\<close>

lemma testStepFinishedHandler_hook_step:
  assumes "isTextTerminal config" and "state w = StateStepStarted p ms c s"
    and "resolve_testStep ms tsf = Inr (pickleId, testStep)"
    and "pickleStepId testStep = None"
    and "assertion ext (hookId testStep \<noteq> None)
           ''Expected a hookId in absence of pickleStepId'' = None"
  shows "snd (testStepFinishedHandler ext config options tsf w) = Inr True
     \<and> state (fst (testStepFinishedHandler ext config options tsf w)) =
         StateStepFinished p (ms @ [emptyEnvelope\<lparr>testStepFinished := Some tsf\<rparr>]) c"
proof -
  let ?w1 = "emit_if_pretty p (emptyEnvelope\<lparr>testStepFinished := Some tsf\<rparr>) w"
  have st1: "state ?w1 = StateStepStarted p ms c s"
    using assms(2) by simp
  have "testStepFinishedHandler ext config options tsf w = step_finished tsf ?w1"
    using assms by (simp add: testStepFinishedHandler_def Let_def)
  then show ?thesis
    using step_finished_step_started [OF st1, of tsf] by simp
qed

text \<open>A finished step that returns is one of the two.\<close>

lemma testStepFinishedHandler_returns:
  assumes "isTextTerminal config" and "state w = StateStepStarted p ms c s"
    and "snd (testStepFinishedHandler ext config options tsf w) = Inr True"
  shows "\<exists>pickleId testStep. resolve_testStep ms tsf = Inr (pickleId, testStep)
     \<and> ((pickleStepId testStep = None
          \<and> assertion ext (hookId testStep \<noteq> None)
               ''Expected a hookId in absence of pickleStepId'' = None)
        \<or> (\<exists>psid pk pickleStep doc recorded.
              pickleStepId testStep = Some psid
              \<and> resolve_pickleStep ms pickleId psid = Inr (pk, pickleStep, doc)
              \<and> run_onAfterStep ext options
                   \<lparr> result = testStepResult tsf, o_pickle = pk, o_pickleStep = pickleStep,
                     o_gherkinDocument = doc, o_testCaseStartedId = tsf_testCaseStartedId tsf,
                     o_testStepId = tsf_testStepId tsf \<rparr> = Inr recorded))"
proof -
  obtain pickleId testStep where r1: "resolve_testStep ms tsf = Inr (pickleId, testStep)"
    using assms by (auto simp add: testStepFinishedHandler_def Let_def split: sum.splits)
  show ?thesis
  proof (cases "pickleStepId testStep")
    case None
    then have "assertion ext (hookId testStep \<noteq> None)
               ''Expected a hookId in absence of pickleStepId'' = None"
      using assms r1 by (auto simp add: testStepFinishedHandler_def Let_def split: option.splits)
    with r1 None show ?thesis by blast
  next
    case (Some psid)
    obtain pk pickleStep doc where r2: "resolve_pickleStep ms pickleId psid = Inr (pk, pickleStep, doc)"
      using assms r1 Some
      by (auto simp add: testStepFinishedHandler_def Let_def split: sum.splits)
    obtain recorded where "run_onAfterStep ext options
        \<lparr> result = testStepResult tsf, o_pickle = pk, o_pickleStep = pickleStep,
          o_gherkinDocument = doc, o_testCaseStartedId = tsf_testCaseStartedId tsf,
          o_testStepId = tsf_testStepId tsf \<rparr> = Inr recorded"
      using assms r1 Some r2
      by (auto simp add: testStepFinishedHandler_def Let_def split: sum.splits)
    with r1 Some r2 show ?thesis by blast
  qed
qed

lemma ex_step_with_note:
  "testStepFinishedHandler (ex_externals True False) ex_config
     \<lparr> onAfterStep = Some (\<lambda>args. Attach (StringData ''note'') None Return Raise) \<rparr>
     ex_testStepFinished (ex_world ex_open_state)
   = (ex_world (StateStepFinished PrettyDisabled
        (ex_open_buffer @
           [emptyEnvelope\<lparr>attachment := Some
              \<lparr> a_testCaseStartedId = ''tcs1'', a_testStepId = ''st1'', a_body = ''note'',
                a_mediaType = ''text/plain'', a_contentEncoding = IDENTITY \<rparr>\<rparr>,
            emptyEnvelope\<lparr>testStepFinished := Some ex_testStepFinished\<rparr>]) ''tcs1''),
      Inr True)"
proof -
  have tt: "isTextTerminal ex_config"
    by (simp add: ex_config_def)
  have hook: "run_onAfterStep (ex_externals True False)
      \<lparr> onAfterStep = Some (\<lambda>args. Attach (StringData ''note'') None Return Raise) \<rparr> args
      = Inr [\<lparr> data = ''note'', mediaType = ''text/plain'', encoding = IDENTITY \<rparr>]" for args
    by (simp add: run_onAfterStep_def attach_text_default)
  show ?thesis
    using tt
    by (simp add: testStepFinishedHandler_def ex_open_state_def ex_world_def
          ex_resolve_testStep ex_resolve_pickleStep hook emit_if_pretty_def
          createStringAttachmentHandler_def step_finished_def Let_def)
qed

lemma files_emit [simp]: "files (emit h e w) = files w"
  by (simp add: emit_def)

lemma files_emit_all [simp]: "files (emit_all h es w) = files w"
  by (induction es arbitrary: w) simp_all

lemma files_emit_if_pretty [simp]: "files (emit_if_pretty p e w) = files w"
  by (simp add: emit_if_pretty_def split: PrettyState.split)

lemma files_createPrettyStream [simp]: "files (fst (createPrettyStream w)) = files w"
  by (simp add: createPrettyStream_def)














section \<open>The claims\<close>

subsection \<open>The reload\<close>




subsection \<open>Resolution of the finished step\<close>

text \<open>
  C2. The lookups of the resolution return the first match from the start of the buffer:
  an envelope whose payload has the id, with no such envelope before it, is the one
  found, whatever follows it.
\<close>

theorem resolution_selects_first_match:
  "(testCaseStarted e = Some t \<and> tcs_id t = i
      \<and> (\<forall>m\<in>set pre. \<forall>t'. testCaseStarted m = Some t' \<longrightarrow> tcs_id t' \<noteq> i)
    \<longrightarrow> find_testCaseStarted (pre @ e # post) i = Some t)
   \<and> (testCase e = Some tc \<and> tc_id tc = i
      \<and> (\<forall>m\<in>set pre. \<forall>tc'. testCase m = Some tc' \<longrightarrow> tc_id tc' \<noteq> i)
    \<longrightarrow> find_testCase (pre @ e # post) i = Some tc)
   \<and> (pickle e = Some pk \<and> p_id pk = i
      \<and> (\<forall>m\<in>set pre. \<forall>pk'. pickle m = Some pk' \<longrightarrow> p_id pk' \<noteq> i)
    \<longrightarrow> find_pickle (pre @ e # post) i = Some pk)"
proof (intro conjI impI)
  assume "testCaseStarted e = Some t \<and> tcs_id t = i
      \<and> (\<forall>m\<in>set pre. \<forall>t'. testCaseStarted m = Some t' \<longrightarrow> tcs_id t' \<noteq> i)"
  then show "find_testCaseStarted (pre @ e # post) i = Some t"
    unfolding find_testCaseStarted_def filter_notNull_map
    by (intro find_map_filter_first) auto
next
  assume "testCase e = Some tc \<and> tc_id tc = i
      \<and> (\<forall>m\<in>set pre. \<forall>tc'. testCase m = Some tc' \<longrightarrow> tc_id tc' \<noteq> i)"
  then show "find_testCase (pre @ e # post) i = Some tc"
    unfolding find_testCase_def filter_notNull_map
    by (intro find_map_filter_first) auto
next
  assume "pickle e = Some pk \<and> p_id pk = i
      \<and> (\<forall>m\<in>set pre. \<forall>pk'. pickle m = Some pk' \<longrightarrow> p_id pk' \<noteq> i)"
  then show "find_pickle (pre @ e # post) i = Some pk"
    unfolding find_pickle_def filter_notNull_map
    by (intro find_map_filter_first) auto
qed

theorem resolution_selects_first_match_witness:
  "testCaseStarted (emptyEnvelope\<lparr>testCaseStarted := Some ex_testCaseStarted\<rparr>)
     = Some ex_testCaseStarted
   \<and> tcs_id ex_testCaseStarted = ''tcs1''
   \<and> tcs_id ex_second_started = ''tcs1''
   \<and> find_testCaseStarted ex_duplicates ''tcs1'' = Some ex_testCaseStarted
   \<and> find_testCase ex_duplicates ''pk1'' = Some ex_testCase
   \<and> find_pickle ex_duplicates ''pk1'' = Some ex_pickle"
proof -
  have split1: "ex_duplicates = ex_source @ emptyEnvelope\<lparr>testCaseStarted := Some ex_testCaseStarted\<rparr>
      # [emptyEnvelope\<lparr>pickle := Some ex_second_pickle\<rparr>,
         emptyEnvelope\<lparr>testCaseStarted := Some ex_second_started\<rparr>]"
    by (simp add: ex_duplicates_def)
  have split2: "ex_duplicates = [ex_document, emptyEnvelope\<lparr>pickle := Some ex_pickle\<rparr>]
      @ emptyEnvelope\<lparr>testCase := Some ex_testCase\<rparr>
      # [emptyEnvelope\<lparr>testCaseStarted := Some ex_testCaseStarted\<rparr>,
         emptyEnvelope\<lparr>pickle := Some ex_second_pickle\<rparr>,
         emptyEnvelope\<lparr>testCaseStarted := Some ex_second_started\<rparr>]"
    by (simp add: ex_duplicates_def ex_source_def)
  have split3: "ex_duplicates = [ex_document] @ emptyEnvelope\<lparr>pickle := Some ex_pickle\<rparr>
      # [emptyEnvelope\<lparr>testCase := Some ex_testCase\<rparr>,
         emptyEnvelope\<lparr>testCaseStarted := Some ex_testCaseStarted\<rparr>,
         emptyEnvelope\<lparr>pickle := Some ex_second_pickle\<rparr>,
         emptyEnvelope\<lparr>testCaseStarted := Some ex_second_started\<rparr>]"
    by (simp add: ex_duplicates_def ex_source_def)
  have a: "find_testCaseStarted ex_duplicates ''tcs1'' = Some ex_testCaseStarted"
    unfolding split1
    by (rule resolution_selects_first_match [THEN conjunct1, rule_format])
       (simp add: ex_source_def ex_document_def emptyEnvelope_def ex_testCaseStarted_def)
  have b: "find_testCase ex_duplicates ''pk1'' = Some ex_testCase"
    unfolding split2
    by (rule resolution_selects_first_match [THEN conjunct2, THEN conjunct1, rule_format])
       (simp add: ex_document_def emptyEnvelope_def ex_testCase_def)
  have c: "find_pickle ex_duplicates ''pk1'' = Some ex_pickle"
    unfolding split3
    by (rule resolution_selects_first_match [THEN conjunct2, THEN conjunct2, rule_format])
       (simp add: ex_document_def emptyEnvelope_def ex_pickle_def)
  show ?thesis
    using a b c by (simp add: ex_testCaseStarted_def ex_second_started_def)
qed

theorem resolution_last_match_counterexample:
  "find_testCaseStarted ex_duplicates ''tcs1'' = Some ex_testCaseStarted
   \<and> last_matching (\<lambda>t. tcs_id t = ''tcs1'') (filter_notNull (map testCaseStarted ex_duplicates))
       = Some ex_second_started
   \<and> ex_testCaseStarted \<noteq> ex_second_started
   \<and> find_pickle ex_duplicates ''pk1'' = Some ex_pickle
   \<and> last_matching (\<lambda>p. p_id p = ''pk1'') (filter_notNull (map pickle ex_duplicates))
       = Some ex_second_pickle
   \<and> ex_pickle \<noteq> ex_second_pickle
   \<and> resolve_testStep ex_duplicates ex_testStepFinished =
       Inr (''pk1'', \<lparr> ts_id = ''st1'', pickleStepId = Some ''ps1'', hookId = None \<rparr>)"
proof -
  have started: "filter_notNull (map testCaseStarted ex_duplicates)
      = [ex_testCaseStarted, ex_second_started]"
    by (simp add: filter_notNull_def List.map_filter_def ex_duplicates_def ex_source_def
          ex_document_def emptyEnvelope_def)
  have pickles: "filter_notNull (map pickle ex_duplicates) = [ex_pickle, ex_second_pickle]"
    by (simp add: filter_notNull_def List.map_filter_def ex_duplicates_def ex_source_def
          ex_document_def emptyEnvelope_def)
  have cases: "filter_notNull (map testCase ex_duplicates) = [ex_testCase]"
    by (simp add: filter_notNull_def List.map_filter_def ex_duplicates_def ex_source_def
          ex_document_def emptyEnvelope_def)
  have ids: "tcs_id ex_testCaseStarted = ''tcs1''" "tcs_id ex_second_started = ''tcs1''"
    "testCaseId ex_testCaseStarted = ''pk1''"
    "p_id ex_pickle = ''pk1''" "p_id ex_second_pickle = ''pk1''" "tc_id ex_testCase = ''pk1''"
    by (simp_all add: ex_testCaseStarted_def ex_second_started_def ex_pickle_def
          ex_second_pickle_def ex_testCase_def)
  have d1: "ex_testCaseStarted \<noteq> ex_second_started"
    by (simp add: ex_testCaseStarted_def ex_second_started_def)
  have d2: "ex_pickle \<noteq> ex_second_pickle"
    by (simp add: ex_pickle_def ex_second_pickle_def)
  have r: "resolve_testStep ex_duplicates ex_testStepFinished =
       Inr (''pk1'', \<lparr> ts_id = ''st1'', pickleStepId = Some ''ps1'', hookId = None \<rparr>)"
    by (simp add: resolve_testStep_def find_testCaseStarted_def find_testCase_def started cases
          ids assertAndReturn_def Let_def)
       (simp add: ex_testStepFinished_def ex_testCase_def)
  show ?thesis
    using d1 d2 r
    by (simp add: find_testCaseStarted_def find_pickle_def last_matching_def started pickles ids)
qed

subsection \<open>Protocol violations\<close>

text \<open>
  C3. In text-terminal mode, an event that the table of section 4.1 does not allow in the
  current state, and whose handler gets as far as its check of the state, raises the
  state error: the world is as before the call, and the message of the error starts with
  the name of the handler and the name of the state. The handler of spec-about-to-start
  gets that far for a feature spec with message or pretty output enabled, the handler of
  string-attachment-requested with message output enabled, the handlers of spec-finished
  and screenshot-captured never, every other handler always.
\<close>

theorem illegal_event_raises_state_error:
  assumes "isTextTerminal config"
    and "\<not> spec_legal ev (state_tag (state w))"
    and "reaches_state_check ext config ev"
  shows "handle ext config ev w =
           (w, Some (createStateError ext (handler_name ev) (state_tag (state w))))
         \<and> prefix (''Unexpected state in '' @ handler_name ev @ '': '' @ state_tag (state w))
             (error_message (createStateError ext (handler_name ev) (state_tag (state w))))"
proof -
  have "handle ext config ev w =
           (w, Some (createStateError ext (handler_name ev) (state_tag (state w))))"
  proof (cases ev)
    case (SpecAboutToStart spec)
    with assms show ?thesis
      by (simp add: outcome_def beforeSpecHandler_illegal)
  next
    case (StaticScenarioDataReceived d)
    with assms show ?thesis
      by (simp add: outcome_def specEnvelopesHandler_illegal)
  next
    case (TestCaseStartedEvent d)
    with assms show ?thesis
      by (simp add: outcome_def testCaseStartedHandler_illegal)
  next
    case (TestStepStartedEvent d)
    with assms show ?thesis
      by (simp add: outcome_def testStepStartedHandler_illegal)
  next
    case (TestStepFinishedEvent options d)
    with assms show ?thesis
      by (simp add: outcome_def testStepFinishedHandler_illegal)
  next
    case (TestCaseFinishedEvent d)
    with assms show ?thesis
      by (simp add: outcome_def testCaseFinishedHandler_illegal)
  next
    case (SpecFinished spec results)
    with assms show ?thesis by simp
  next
    case (ScreenshotCaptured details)
    with assms show ?thesis by simp
  next
    case (StringAttachmentRequested att)
    with assms show ?thesis
      by (simp add: outcome_def createStringAttachmentHandler_illegal)
  qed
  then show ?thesis
    using createStateError_names by simp
qed

theorem illegal_event_raises_state_error_witness:
  "isTextTerminal ex_config
   \<and> \<not> spec_legal (TestCaseStartedEvent ex_testCaseStarted) (state_tag (state (ex_world StateInitial)))
   \<and> reaches_state_check (ex_externals True False) ex_config (TestCaseStartedEvent ex_testCaseStarted)
   \<and> handle (ex_externals True False) ex_config (TestCaseStartedEvent ex_testCaseStarted)
        (ex_world StateInitial)
      = (ex_world StateInitial,
         Some (createStateError (ex_externals True False) ''testCaseStartedHandler'' ''initial''))
   \<and> prefix ''Unexpected state in testCaseStartedHandler: initial''
        (error_message (createStateError (ex_externals True False) ''testCaseStartedHandler'' ''initial''))"
proof -
  have a: "isTextTerminal ex_config"
    by (simp add: ex_config_def)
  have b: "\<not> spec_legal (TestCaseStartedEvent ex_testCaseStarted)
              (state_tag (state (ex_world StateInitial)))"
    by (simp add: ex_world_def)
  have c: "reaches_state_check (ex_externals True False) ex_config
             (TestCaseStartedEvent ex_testCaseStarted)"
    by simp
  have t: "state_tag (state (ex_world StateInitial)) = ''initial''"
    by (simp add: ex_world_def)
  show ?thesis
    using a b c illegal_event_raises_state_error [OF a b c] unfolding t by simp
qed

theorem state_error_counterexample:
  "isTextTerminal ex_config
   \<and> \<not> spec_legal (StringAttachmentRequested \<lparr> data = ''note'', mediaType = ''text/plain'', encoding = IDENTITY \<rparr>)
          (state_tag (state (ex_world StateInitial)))
   \<and> handle (ex_externals False True) ex_config
        (StringAttachmentRequested \<lparr> data = ''note'', mediaType = ''text/plain'', encoding = IDENTITY \<rparr>)
        (ex_world StateInitial)
      = (ex_world StateInitial, None)
   \<and> \<not> spec_legal (SpecAboutToStart \<lparr> spec_name = ''login.cy.ts'', relative = ''e2e/login.cy.ts'' \<rparr>)
          (state_tag (state (ex_world (StateTestStarted PrettyDisabled ex_source ''tcs1''))))
   \<and> handle (ex_externals True False) ex_config
        (SpecAboutToStart \<lparr> spec_name = ''login.cy.ts'', relative = ''e2e/login.cy.ts'' \<rparr>)
        (ex_world (StateTestStarted PrettyDisabled ex_source ''tcs1''))
      = (ex_world (StateTestStarted PrettyDisabled ex_source ''tcs1''), None)"
  by (simp add: ex_config_def ex_world_def outcome_def createStringAttachmentHandler_def
        beforeSpecHandler_def isFeature_def endsWith_def ex_externals_def Let_def)

subsection \<open>The buffer after an event\<close>

text \<open>
  C8. In text-terminal mode, from a state the event is accepted in: after
  test-case-started, test-step-started and test-case-finished the buffer is the buffer
  before with the envelope of the event added at its end. A test-step-finished returns
  in two cases. For the step of a pickle whose hook returns, the buffer is the buffer
  before, then one attachment envelope for each attachment the hook recorded, in order
  (none when message output is disabled or no hook is given), then the
  \<open>testStepFinished\<close> envelope. For the step of a hook it is the buffer before, then
  the \<open>testStepFinished\<close> envelope. A
  screenshot whose file can be read, and a string attachment, add their one attachment
  envelope in \<open>step-started\<close> when message output is enabled.
\<close>

theorem buffer_grows_by_event:
  assumes "isTextTerminal config"
  shows
    "(state w = StateReceivedSpecEnvelopes p ms \<or> state w = StateTestFinished p ms \<longrightarrow>
        state (fst (testCaseStartedHandler ext config tcs w)) =
          StateTestStarted p (ms @ [emptyEnvelope\<lparr>testCaseStarted := Some tcs\<rparr>]) (tcs_id tcs))
     \<and> (state w = StateTestStarted p ms c \<or> state w = StateStepFinished p ms c
           \<or> state w = StateStepStarted p ms c s \<longrightarrow>
        state (fst (testStepStartedHandler ext config tss w)) =
          StateStepStarted p (ms @ [emptyEnvelope\<lparr>testStepStarted := Some tss\<rparr>]) c
            (tss_testStepId tss))
     \<and> (state w = StateTestStarted p ms c \<or> state w = StateStepFinished p ms c \<longrightarrow>
        state (fst (testCaseFinishedHandler ext config tcf w)) =
          StateTestFinished p (ms @ [emptyEnvelope\<lparr>testCaseFinished := Some tcf\<rparr>]))
     \<and> (state w = StateStepStarted p ms c s
          \<and> resolve_testStep ms tsf = Inr (pickleId, testStep)
          \<and> pickleStepId testStep = Some psid
          \<and> resolve_pickleStep ms pickleId psid = Inr (pk, pickleStep, doc)
          \<and> onAfterStep options = Some hook
          \<and> run_hook
               (hook \<lparr> result = testStepResult tsf, o_pickle = pk, o_pickleStep = pickleStep,
                       o_gherkinDocument = doc, o_testCaseStartedId = tsf_testCaseStartedId tsf,
                       o_testStepId = tsf_testStepId tsf \<rparr>) ext [] = Inr recorded \<longrightarrow>
        snd (testStepFinishedHandler ext config options tsf w) = Inr True
        \<and> state (fst (testStepFinishedHandler ext config options tsf w)) =
            StateStepFinished p
              (ms @ (if enabled (p_messages (resolve ext config))
                     then map (\<lambda>att. emptyEnvelope\<lparr>attachment := Some
                            \<lparr> a_testCaseStartedId = c, a_testStepId = s, a_body = data att,
                              a_mediaType = mediaType att,
                              a_contentEncoding = encoding att \<rparr>\<rparr>) recorded
                     else [])
                  @ [emptyEnvelope\<lparr>testStepFinished := Some tsf\<rparr>]) c)
     \<and> (state w = StateStepStarted p ms c s
          \<and> resolve_testStep ms tsf = Inr (pickleId, testStep)
          \<and> pickleStepId testStep = Some psid
          \<and> resolve_pickleStep ms pickleId psid = Inr (pk, pickleStep, doc)
          \<and> onAfterStep options = None \<longrightarrow>
        snd (testStepFinishedHandler ext config options tsf w) = Inr True
        \<and> state (fst (testStepFinishedHandler ext config options tsf w)) =
            StateStepFinished p (ms @ [emptyEnvelope\<lparr>testStepFinished := Some tsf\<rparr>]) c)
     \<and> (state w = StateStepStarted p ms c s
          \<and> resolve_testStep ms tsf = Inr (pickleId, testStep)
          \<and> pickleStepId testStep = None
          \<and> assertion ext (hookId testStep \<noteq> None)
               ''Expected a hookId in absence of pickleStepId'' = None \<longrightarrow>
        snd (testStepFinishedHandler ext config options tsf w) = Inr True
        \<and> state (fst (testStepFinishedHandler ext config options tsf w)) =
            StateStepFinished p (ms @ [emptyEnvelope\<lparr>testStepFinished := Some tsf\<rparr>]) c)
     \<and> (state w = StateStepStarted p ms c s
          \<and> snd (testStepFinishedHandler ext config options tsf w) = Inr True \<longrightarrow>
        (\<exists>pickleId testStep. resolve_testStep ms tsf = Inr (pickleId, testStep)
           \<and> ((pickleStepId testStep = None
                \<and> assertion ext (hookId testStep \<noteq> None)
                     ''Expected a hookId in absence of pickleStepId'' = None)
              \<or> (\<exists>psid pk pickleStep doc.
                    pickleStepId testStep = Some psid
                    \<and> resolve_pickleStep ms pickleId psid = Inr (pk, pickleStep, doc)
                    \<and> (onAfterStep options = None
                        \<or> (\<exists>hook recorded. onAfterStep options = Some hook
                              \<and> run_hook
                                   (hook \<lparr> result = testStepResult tsf, o_pickle = pk,
                                           o_pickleStep = pickleStep, o_gherkinDocument = doc,
                                           o_testCaseStartedId = tsf_testCaseStartedId tsf,
                                           o_testStepId = tsf_testStepId tsf \<rparr>) ext []
                                  = Inr recorded))))))
     \<and> (state w = StateStepStarted p ms c s \<and> enabled (p_messages (resolve ext config))
          \<and> files w (path details) = Some bytes \<longrightarrow>
        state (fst (afterScreenshotHandler ext config details w)) =
          StateStepStarted p
            (ms @ [emptyEnvelope\<lparr>attachment := Some
               \<lparr> a_testCaseStartedId = c, a_testStepId = s, a_body = toBase64 ext bytes,
                 a_mediaType = ''image/png'', a_contentEncoding = BASE64 \<rparr>\<rparr>]) c s)
     \<and> (state w = StateStepStarted p ms c s \<and> enabled (p_messages (resolve ext config)) \<longrightarrow>
        state (fst (createStringAttachmentHandler ext config att w)) =
          StateStepStarted p
            (ms @ [emptyEnvelope\<lparr>attachment := Some
               \<lparr> a_testCaseStartedId = c, a_testStepId = s, a_body = data att,
                 a_mediaType = mediaType att, a_contentEncoding = encoding att \<rparr>\<rparr>]) c s)"
proof (intro conjI impI)
  assume "state w = StateReceivedSpecEnvelopes p ms \<or> state w = StateTestFinished p ms"
  with assms show "state (fst (testCaseStartedHandler ext config tcs w)) =
          StateTestStarted p (ms @ [emptyEnvelope\<lparr>testCaseStarted := Some tcs\<rparr>]) (tcs_id tcs)"
    by (auto simp add: testCaseStartedHandler_def Let_def)
next
  assume "state w = StateTestStarted p ms c \<or> state w = StateStepFinished p ms c
           \<or> state w = StateStepStarted p ms c s"
  with assms show "state (fst (testStepStartedHandler ext config tss w)) =
          StateStepStarted p (ms @ [emptyEnvelope\<lparr>testStepStarted := Some tss\<rparr>]) c
            (tss_testStepId tss)"
    by (auto simp add: testStepStartedHandler_def Let_def)
next
  assume "state w = StateTestStarted p ms c \<or> state w = StateStepFinished p ms c"
  with assms show "state (fst (testCaseFinishedHandler ext config tcf w)) =
          StateTestFinished p (ms @ [emptyEnvelope\<lparr>testCaseFinished := Some tcf\<rparr>])"
    by (auto simp add: testCaseFinishedHandler_def Let_def)
next
  assume h: "state w = StateStepStarted p ms c s
          \<and> resolve_testStep ms tsf = Inr (pickleId, testStep)
          \<and> pickleStepId testStep = Some psid
          \<and> resolve_pickleStep ms pickleId psid = Inr (pk, pickleStep, doc)
          \<and> onAfterStep options = Some hook
          \<and> run_hook
               (hook \<lparr> result = testStepResult tsf, o_pickle = pk, o_pickleStep = pickleStep,
                       o_gherkinDocument = doc, o_testCaseStartedId = tsf_testCaseStartedId tsf,
                       o_testStepId = tsf_testStepId tsf \<rparr>) ext [] = Inr recorded"
  then have ran: "run_onAfterStep ext options
      \<lparr> result = testStepResult tsf, o_pickle = pk, o_pickleStep = pickleStep,
        o_gherkinDocument = doc, o_testCaseStartedId = tsf_testCaseStartedId tsf,
        o_testStepId = tsf_testStepId tsf \<rparr> = Inr recorded"
    by (simp add: run_onAfterStep_def)
  note finished_step = testStepFinishedHandler_pickle_step
    [of config w p ms c s tsf pickleId testStep psid pk pickleStep doc ext options recorded]
  from assms h ran finished_step
  show "snd (testStepFinishedHandler ext config options tsf w) = Inr True"
    by blast
  from assms h ran finished_step
  show "state (fst (testStepFinishedHandler ext config options tsf w)) =
            StateStepFinished p
              (ms @ (if enabled (p_messages (resolve ext config))
                     then map (\<lambda>att. emptyEnvelope\<lparr>attachment := Some
                            \<lparr> a_testCaseStartedId = c, a_testStepId = s, a_body = data att,
                              a_mediaType = mediaType att,
                              a_contentEncoding = encoding att \<rparr>\<rparr>) recorded
                     else [])
                  @ [emptyEnvelope\<lparr>testStepFinished := Some tsf\<rparr>]) c"
    by blast
next
  assume h: "state w = StateStepStarted p ms c s
          \<and> resolve_testStep ms tsf = Inr (pickleId, testStep)
          \<and> pickleStepId testStep = Some psid
          \<and> resolve_pickleStep ms pickleId psid = Inr (pk, pickleStep, doc)
          \<and> onAfterStep options = None"
  then have ran: "run_onAfterStep ext options
      \<lparr> result = testStepResult tsf, o_pickle = pk, o_pickleStep = pickleStep,
        o_gherkinDocument = doc, o_testCaseStartedId = tsf_testCaseStartedId tsf,
        o_testStepId = tsf_testStepId tsf \<rparr> = Inr []"
    by (simp add: run_onAfterStep_def)
  note finished_step = testStepFinishedHandler_pickle_step
    [of config w p ms c s tsf pickleId testStep psid pk pickleStep doc ext options "[]"]
  from assms h ran finished_step
  show "snd (testStepFinishedHandler ext config options tsf w) = Inr True"
    by blast
  from assms h ran finished_step
  show "state (fst (testStepFinishedHandler ext config options tsf w)) =
            StateStepFinished p (ms @ [emptyEnvelope\<lparr>testStepFinished := Some tsf\<rparr>]) c"
    by simp
next
  assume h: "state w = StateStepStarted p ms c s
          \<and> resolve_testStep ms tsf = Inr (pickleId, testStep)
          \<and> pickleStepId testStep = None
          \<and> assertion ext (hookId testStep \<noteq> None)
               ''Expected a hookId in absence of pickleStepId'' = None"
  note finished_step = testStepFinishedHandler_hook_step
    [of config w p ms c s tsf pickleId testStep ext options]
  from assms h finished_step
  show "snd (testStepFinishedHandler ext config options tsf w) = Inr True"
    by blast
  from assms h finished_step
  show "state (fst (testStepFinishedHandler ext config options tsf w)) =
            StateStepFinished p (ms @ [emptyEnvelope\<lparr>testStepFinished := Some tsf\<rparr>]) c"
    by blast
next
  assume "state w = StateStepStarted p ms c s
          \<and> snd (testStepFinishedHandler ext config options tsf w) = Inr True"
  with assms
  show "\<exists>pickleId testStep. resolve_testStep ms tsf = Inr (pickleId, testStep)
           \<and> ((pickleStepId testStep = None
                \<and> assertion ext (hookId testStep \<noteq> None)
                     ''Expected a hookId in absence of pickleStepId'' = None)
              \<or> (\<exists>psid pk pickleStep doc.
                    pickleStepId testStep = Some psid
                    \<and> resolve_pickleStep ms pickleId psid = Inr (pk, pickleStep, doc)
                    \<and> (onAfterStep options = None
                        \<or> (\<exists>hook recorded. onAfterStep options = Some hook
                              \<and> run_hook
                                   (hook \<lparr> result = testStepResult tsf, o_pickle = pk,
                                           o_pickleStep = pickleStep, o_gherkinDocument = doc,
                                           o_testCaseStartedId = tsf_testCaseStartedId tsf,
                                           o_testStepId = tsf_testStepId tsf \<rparr>) ext []
                                  = Inr recorded))))"
    using testStepFinishedHandler_returns [of config w p ms c s ext options tsf]
    by (cases "onAfterStep options") (auto simp add: run_onAfterStep_def)
next
  assume "state w = StateStepStarted p ms c s \<and> enabled (p_messages (resolve ext config))
          \<and> files w (path details) = Some bytes"
  with assms show "state (fst (afterScreenshotHandler ext config details w)) =
          StateStepStarted p
            (ms @ [emptyEnvelope\<lparr>attachment := Some
               \<lparr> a_testCaseStartedId = c, a_testStepId = s, a_body = toBase64 ext bytes,
                 a_mediaType = ''image/png'', a_contentEncoding = BASE64 \<rparr>\<rparr>]) c s"
    by (simp add: afterScreenshotHandler_def Let_def)
next
  assume "state w = StateStepStarted p ms c s \<and> enabled (p_messages (resolve ext config))"
  with assms show "state (fst (createStringAttachmentHandler ext config att w)) =
          StateStepStarted p
            (ms @ [emptyEnvelope\<lparr>attachment := Some
               \<lparr> a_testCaseStartedId = c, a_testStepId = s, a_body = data att,
                 a_mediaType = mediaType att, a_contentEncoding = encoding att \<rparr>\<rparr>]) c s"
    by (simp add: createStringAttachmentHandler_def Let_def)
qed

theorem buffer_grows_by_event_witness:
  "isTextTerminal ex_config
   \<and> state (fst (testCaseStartedHandler (ex_externals True False) ex_config ex_testCaseStarted
                  (ex_world (StateReceivedSpecEnvelopes PrettyDisabled ex_source))))
       = StateTestStarted PrettyDisabled
           (ex_source @ [emptyEnvelope\<lparr>testCaseStarted := Some ex_testCaseStarted\<rparr>]) ''tcs1''
   \<and> snd (testStepFinishedHandler (ex_externals True False) ex_config
            \<lparr> onAfterStep = Some (\<lambda>args.
                 Attach (StringData ''QUJD'') (Some ''base64:image/png'') Return Raise) \<rparr>
            ex_testStepFinished (ex_world ex_open_state)) = Inr True
   \<and> state (fst (testStepFinishedHandler (ex_externals True False) ex_config
            \<lparr> onAfterStep = Some (\<lambda>args.
                 Attach (StringData ''QUJD'') (Some ''base64:image/png'') Return Raise) \<rparr>
            ex_testStepFinished (ex_world ex_open_state))) =
        StateStepFinished PrettyDisabled
          (ex_open_buffer @
             [emptyEnvelope\<lparr>attachment := Some
                \<lparr> a_testCaseStartedId = ''tcs1'', a_testStepId = ''st1'', a_body = ''QUJD'',
                  a_mediaType = ''image/png'', a_contentEncoding = BASE64 \<rparr>\<rparr>,
              emptyEnvelope\<lparr>testStepFinished := Some ex_testStepFinished\<rparr>]) ''tcs1''"
proof -
  let ?E = "ex_externals True False"
  let ?hook = "\<lambda>args :: AfterStepOptions.
      Attach (StringData ''QUJD'') (Some ''base64:image/png'') Return Raise"
  have tt: "isTextTerminal ex_config"
    by (simp add: ex_config_def)
  have s1: "state (ex_world (StateReceivedSpecEnvelopes PrettyDisabled ex_source))
      = StateReceivedSpecEnvelopes PrettyDisabled ex_source
    \<or> state (ex_world (StateReceivedSpecEnvelopes PrettyDisabled ex_source))
      = StateTestFinished PrettyDisabled ex_source"
    by (simp add: ex_world_def)
  have ran: "run_hook (?hook args) ?E []
      = Inr [\<lparr> data = ''QUJD'', mediaType = ''image/png'', encoding = BASE64 \<rparr>]" for args
    using run_hook_text_base64 [of "''QUJD''" "''image/png''" Return Raise ?E "[]"] by simp
  have s2: "state (ex_world ex_open_state) = StateStepStarted PrettyDisabled ex_open_buffer ''tcs1'' ''st1''
      \<and> resolve_testStep ex_open_buffer ex_testStepFinished
          = Inr (''pk1'', \<lparr> ts_id = ''st1'', pickleStepId = Some ''ps1'', hookId = None \<rparr>)
      \<and> pickleStepId \<lparr> ts_id = ''st1'', pickleStepId = Some ''ps1'', hookId = None \<rparr> = Some ''ps1''
      \<and> resolve_pickleStep ex_open_buffer ''pk1'' ''ps1''
          = Inr (ex_pickle, \<lparr> ps_id = ''ps1'', ps_text = ''a step'' \<rparr>, \<lparr> gd_uri = Some ''a.feature'' \<rparr>)
      \<and> onAfterStep \<lparr> onAfterStep = Some ?hook \<rparr> = Some ?hook
      \<and> run_hook
           (?hook \<lparr> result = testStepResult ex_testStepFinished, o_pickle = ex_pickle,
                    o_pickleStep = \<lparr> ps_id = ''ps1'', ps_text = ''a step'' \<rparr>,
                    o_gherkinDocument = \<lparr> gd_uri = Some ''a.feature'' \<rparr>,
                    o_testCaseStartedId = tsf_testCaseStartedId ex_testStepFinished,
                    o_testStepId = tsf_testStepId ex_testStepFinished \<rparr>) ?E []
          = Inr [\<lparr> data = ''QUJD'', mediaType = ''image/png'', encoding = BASE64 \<rparr>]"
    using ran ex_resolve_testStep ex_resolve_pickleStep
    by (simp add: ex_world_def ex_open_state_def)
  note a = buffer_grows_by_event [OF tt, THEN conjunct1, rule_format, OF s1,
      of ?E ex_testCaseStarted]
  note b = buffer_grows_by_event [OF tt, THEN conjunct2, THEN conjunct2, THEN conjunct2,
      THEN conjunct1, rule_format, OF s2]
  have id: "tcs_id ex_testCaseStarted = ''tcs1''"
    by (simp add: ex_testCaseStarted_def)
  have en: "enabled (p_messages (resolve ?E ex_config))"
    by simp
  from tt a b id en show ?thesis by simp
qed

theorem buffer_grows_counterexample:
  "isTextTerminal ex_config
   \<and> state (ex_world ex_open_state) = StateStepStarted PrettyDisabled ex_open_buffer ''tcs1'' ''st1''
   \<and> testStepFinishedHandler (ex_externals True False) ex_config
        \<lparr> onAfterStep = Some (\<lambda>args. Attach (StringData ''note'') None Return Raise) \<rparr>
        ex_testStepFinished (ex_world ex_open_state)
      = (ex_world (StateStepFinished PrettyDisabled
           (ex_open_buffer @
              [emptyEnvelope\<lparr>attachment := Some
                 \<lparr> a_testCaseStartedId = ''tcs1'', a_testStepId = ''st1'', a_body = ''note'',
                   a_mediaType = ''text/plain'', a_contentEncoding = IDENTITY \<rparr>\<rparr>,
               emptyEnvelope\<lparr>testStepFinished := Some ex_testStepFinished\<rparr>]) ''tcs1''),
         Inr True)
   \<and> afterScreenshotHandler (ex_externals True False) ex_config ex_details (ex_world ex_open_state)
      = (ex_world ex_open_state, Inr ex_details)
   \<and> createStringAttachmentHandler (ex_externals False True) ex_config
        \<lparr> data = ''note'', mediaType = ''text/plain'', encoding = IDENTITY \<rparr> (ex_world ex_open_state)
      = (ex_world ex_open_state, Inr True)
   \<and> testCaseStartedHandler (ex_externals True False) ex_interactive_config ex_testCaseStarted
        (ex_world (StateReceivedSpecEnvelopes PrettyDisabled ex_source))
      = (ex_world (StateReceivedSpecEnvelopes PrettyDisabled ex_source), Inr True)"
proof -
  have a: "isTextTerminal ex_config"
    by (simp add: ex_config_def)
  have b: "state (ex_world ex_open_state) = StateStepStarted PrettyDisabled ex_open_buffer ''tcs1'' ''st1''"
    by (simp add: ex_world_def ex_open_state_def)
  have c: "afterScreenshotHandler (ex_externals True False) ex_config ex_details (ex_world ex_open_state)
      = (ex_world ex_open_state, Inr ex_details)"
    by (simp add: afterScreenshotHandler_def ex_world_def ex_open_state_def Let_def)
  have d: "createStringAttachmentHandler (ex_externals False True) ex_config
        \<lparr> data = ''note'', mediaType = ''text/plain'', encoding = IDENTITY \<rparr> (ex_world ex_open_state)
      = (ex_world ex_open_state, Inr True)"
    by (simp add: createStringAttachmentHandler_def Let_def)
  have e: "testCaseStartedHandler (ex_externals True False) ex_interactive_config ex_testCaseStarted
        (ex_world (StateReceivedSpecEnvelopes PrettyDisabled ex_source))
      = (ex_world (StateReceivedSpecEnvelopes PrettyDisabled ex_source), Inr True)"
    by (simp add: testCaseStartedHandler_def ex_interactive_config_def)
  from a b c d e ex_step_with_note show ?thesis by simp
qed
subsection \<open>The end of a spec\<close>

text \<open>
  C7. \<open>afterSpecHandler\<close> does nothing unless the run is in text-terminal mode and the
  spec is a feature. Otherwise it returns without an error, the state becomes
  \<open>after-spec\<close> and the writable of an enabled pretty stream is ended. With message
  output enabled and results given: when the results show a hook failure, the files are
  as before and the notice is printed; when they do not and the state carries a buffer,
  the whole buffer is appended to the message log, one line for each envelope. Without
  results, or with message output disabled, the files are as before.
\<close>

theorem spec_finished_commits_or_discards:
  fixes ext config spec results w
  defines "w' \<equiv> fst (afterSpecHandler ext config spec results w)"
    and "messagesPath \<equiv>
           ensureIsAbsolute ext (projectRoot config) (output_path (p_messages (resolve ext config)))"
  shows
    "(\<not> isTextTerminal config \<or> \<not> isFeature spec \<longrightarrow>
        afterSpecHandler ext config spec results w = (w, Inr ()))
     \<and> (isTextTerminal config \<and> isFeature spec \<longrightarrow>
          snd (afterSpecHandler ext config spec results w) = Inr ()
          \<and> state w' = StateAfterSpec
          \<and> (\<forall>b wr. state_pretty (state w) = Some (PrettyEnabled b wr) \<and> wr < length (streams w)
                \<longrightarrow> ended (streams w' ! wr))
          \<and> (\<forall>r. results = Some r \<and> enabled (p_messages (resolve ext config))
                  \<and> wasRemainingSkipped ext r
                \<longrightarrow> files w' = files w \<and> console w' = console w @ [hookFailureNotice spec])
          \<and> (\<forall>r ms. results = Some r \<and> enabled (p_messages (resolve ext config))
                  \<and> \<not> wasRemainingSkipped ext r \<and> state_messages (state w) = Some ms
                \<longrightarrow> files w' =
                      (files w)(messagesPath \<mapsto>
                         (case files w messagesPath of
                            None \<Rightarrow> join (map (stringify ext) ms) nl @ nl
                          | Some old \<Rightarrow> old @ join (map (stringify ext) ms) nl @ nl))
                    \<and> console w' = console w)
          \<and> (results = None \<or> \<not> enabled (p_messages (resolve ext config))
                \<longrightarrow> files w' = files w \<and> console w' = console w))"
proof (intro conjI impI)
  assume "\<not> isTextTerminal config \<or> \<not> isFeature spec"
  then show "afterSpecHandler ext config spec results w = (w, Inr ())"
    by (auto simp add: afterSpecHandler_def)
next
  assume a: "isTextTerminal config \<and> isFeature spec"
  then obtain w1 where
    run: "afterSpecHandler ext config spec results w =
           ((case state_pretty (state w) of
               Some (PrettyEnabled b wr) \<Rightarrow> end_stream wr w1
             | _ \<Rightarrow> w1)\<lparr>state := StateAfterSpec\<rparr>, Inr ())"
    and st: "state w1 = state w" and str: "streams w1 = streams w"
    and w1: "w1 = (case results of
                   None \<Rightarrow> w
                 | Some r \<Rightarrow>
                     if enabled (p_messages (resolve ext config)) then
                       (if wasRemainingSkipped ext r
                        then console_log (hookFailureNotice spec) w
                        else (case state_messages (state w) of
                                None \<Rightarrow> w
                              | Some ms \<Rightarrow>
                                  appendFile messagesPath
                                    (join (map (stringify ext) ms) nl @ nl) w))
                     else w)"
    unfolding messagesPath_def using afterSpecHandler_run [of config spec ext results w] by blast
  have fw: "files w' = files w1" and cw: "console w' = console w1"
    unfolding w'_def run by (simp_all split: option.split PrettyState.split)
  show "snd (afterSpecHandler ext config spec results w) = Inr ()"
    by (simp add: run)
  show "state w' = StateAfterSpec"
    unfolding w'_def run by simp
  show "\<forall>b wr. state_pretty (state w) = Some (PrettyEnabled b wr) \<and> wr < length (streams w)
                \<longrightarrow> ended (streams w' ! wr)"
    unfolding w'_def run using str by (auto simp add: end_stream_ended)
  show "\<forall>r. results = Some r \<and> enabled (p_messages (resolve ext config))
                  \<and> wasRemainingSkipped ext r
                \<longrightarrow> files w' = files w \<and> console w' = console w @ [hookFailureNotice spec]"
    unfolding fw cw w1 by simp
  show "\<forall>r ms. results = Some r \<and> enabled (p_messages (resolve ext config))
                  \<and> \<not> wasRemainingSkipped ext r \<and> state_messages (state w) = Some ms
                \<longrightarrow> files w' =
                      (files w)(messagesPath \<mapsto>
                         (case files w messagesPath of
                            None \<Rightarrow> join (map (stringify ext) ms) nl @ nl
                          | Some old \<Rightarrow> old @ join (map (stringify ext) ms) nl @ nl))
                    \<and> console w' = console w"
    unfolding fw cw w1 by simp
  show "files w' = files w" "console w' = console w"
    if "results = None \<or> \<not> enabled (p_messages (resolve ext config))"
    using that unfolding fw cw w1 by (auto split: option.split)
qed

theorem spec_finished_commits_or_discards_witness:
  "isTextTerminal ex_config \<and> isFeature ex_feature
   \<and> state (fst (afterSpecHandler (ex_externals True False) ex_config ex_feature
                  (Some \<lparr> tests = [\<lparr> displayError = None \<rparr>] \<rparr>)
                  (ex_world (StateTestFinished PrettyDisabled [ex_document, ex_document]))))
       = StateAfterSpec
   \<and> files (fst (afterSpecHandler (ex_externals True False) ex_config ex_feature
                  (Some \<lparr> tests = [\<lparr> displayError = None \<rparr>] \<rparr>)
                  (ex_world (StateTestFinished PrettyDisabled [ex_document, ex_document]))))
        ''/project/messages.ndjson''
       = Some (''source'' @ nl @ ''source'' @ nl)
   \<and> wasRemainingSkipped (ex_externals True False) ex_hook_failure
   \<and> files (fst (afterSpecHandler (ex_externals True False) ex_config ex_feature
                  (Some ex_hook_failure)
                  (ex_world (StateTestFinished PrettyDisabled [ex_document, ex_document]))))
       = Map.empty
   \<and> console (fst (afterSpecHandler (ex_externals True False) ex_config ex_feature
                  (Some ex_hook_failure)
                  (ex_world (StateTestFinished PrettyDisabled [ex_document, ex_document]))))
       = [hookFailureNotice ex_feature]"
proof -
  have a: "isTextTerminal ex_config \<and> isFeature ex_feature"
    by (simp add: ex_config_def ex_feature_isFeature)
  have b: "\<not> wasRemainingSkipped (ex_externals True False) \<lparr> tests = [\<lparr> displayError = None \<rparr>] \<rparr>"
    by (simp add: wasRemainingSkipped_def)
  have b': "wasRemainingSkipped (ex_externals True False) ex_hook_failure"
    by (simp add: wasRemainingSkipped_def ex_hook_failure_def ex_externals_def startsWith_def)
  have c: "state_messages (state (ex_world (StateTestFinished PrettyDisabled [ex_document, ex_document])))
      = Some [ex_document, ex_document]"
    by (simp add: ex_world_def)
  have d: "files (ex_world (StateTestFinished PrettyDisabled [ex_document, ex_document]))
      = Map.empty"
    "console (ex_world (StateTestFinished PrettyDisabled [ex_document, ex_document])) = []"
    by (simp_all add: ex_world_def)
  have s: "stringify (ex_externals True False) ex_document = ''source''"
    by (simp add: ex_externals_def ex_stringify_def ex_document_def emptyEnvelope_def)
  note inst = spec_finished_commits_or_discards
    [of ex_config ex_feature "ex_externals True False"
        "Some \<lparr> tests = [\<lparr> displayError = None \<rparr>] \<rparr>"
        "ex_world (StateTestFinished PrettyDisabled [ex_document, ex_document])",
     THEN conjunct2, rule_format, OF a]
  note st = inst [THEN conjunct2, THEN conjunct1]
  note fl = inst [THEN conjunct2, THEN conjunct2, THEN conjunct2, THEN conjunct2, THEN conjunct1,
      rule_format, of "\<lparr> tests = [\<lparr> displayError = None \<rparr>] \<rparr>" "[ex_document, ex_document]"]
  note inst' = spec_finished_commits_or_discards
    [of ex_config ex_feature "ex_externals True False" "Some ex_hook_failure"
        "ex_world (StateTestFinished PrettyDisabled [ex_document, ex_document])",
     THEN conjunct2, rule_format, OF a]
  note sk = inst' [THEN conjunct2, THEN conjunct2, THEN conjunct2, THEN conjunct1,
      rule_format, of ex_hook_failure]
  have committed: "files (fst (afterSpecHandler (ex_externals True False) ex_config ex_feature
                  (Some \<lparr> tests = [\<lparr> displayError = None \<rparr>] \<rparr>)
                  (ex_world (StateTestFinished PrettyDisabled [ex_document, ex_document]))))
        ''/project/messages.ndjson''
       = Some (''source'' @ nl @ ''source'' @ nl)"
    using fl b c d s by simp
  have discarded: "files (fst (afterSpecHandler (ex_externals True False) ex_config ex_feature
                  (Some ex_hook_failure)
                  (ex_world (StateTestFinished PrettyDisabled [ex_document, ex_document]))))
       = Map.empty
   \<and> console (fst (afterSpecHandler (ex_externals True False) ex_config ex_feature
                  (Some ex_hook_failure)
                  (ex_world (StateTestFinished PrettyDisabled [ex_document, ex_document]))))
       = [hookFailureNotice ex_feature]"
    using sk b' d by simp
  from a st committed b' discarded show ?thesis by simp
qed

theorem spec_finished_counterexample:
  "isTextTerminal ex_config
   \<and> afterSpecHandler (ex_externals True False) ex_config ex_not_feature
        (Some \<lparr> tests = [] \<rparr>) (ex_world (StateTestFinished PrettyDisabled ex_finished_buffer))
      = (ex_world (StateTestFinished PrettyDisabled ex_finished_buffer), Inr ())
   \<and> state (ex_world (StateTestFinished PrettyDisabled ex_finished_buffer)) \<noteq> StateAfterSpec
   \<and> \<not> wasRemainingSkipped (ex_externals True False) \<lparr> tests = [] \<rparr>
   \<and> state_messages (state (ex_world (StateTestFinished PrettyDisabled ex_finished_buffer)))
       = Some ex_finished_buffer
   \<and> files (fst (afterSpecHandler (ex_externals True False) ex_config ex_feature None
        (ex_world (StateTestFinished PrettyDisabled ex_finished_buffer))))
       = files (ex_world (StateTestFinished PrettyDisabled ex_finished_buffer))"
  by (simp add: afterSpecHandler_def ex_feature_isFeature ex_config_def ex_world_def
        wasRemainingSkipped_def Let_def)

subsection \<open>The message log of a run\<close>



subsection \<open>Text attachments\<close>

text \<open>
  C4. A text attachment made through \<open>attach\<close> while a step is open. A call of \<open>attach\<close>
  with a string and a media type that starts with \<open>base64:\<close> records the string with the
  marker stripped from the media type and the encoding \<open>BASE64\<close>; with no media type it
  records the string with \<open>text/plain\<close> and \<open>IDENTITY\<close>; the hook goes on from there.
  When the hook of a finished step returns, the handler returns and the buffer is the
  buffer before, then one attachment envelope for each recorded attachment, in order,
  with the ids of the open test case and step and the recorded body, media type and
  encoding unchanged (none when message output is disabled), then the
  \<open>testStepFinished\<close> envelope.
\<close>

theorem text_attachment_envelope:
  "run_hook (Attach (StringData body) (Some (''base64:'' @ mt)) continue caught) ext atts =
     run_hook continue ext (atts @ [\<lparr> data = body, mediaType = mt, encoding = BASE64 \<rparr>])
   \<and> run_hook (Attach (StringData body) None continue caught) ext atts =
       run_hook continue ext
         (atts @ [\<lparr> data = body, mediaType = ''text/plain'', encoding = IDENTITY \<rparr>])
   \<and> (isTextTerminal config \<and> state w = StateStepStarted p ms c s
        \<and> resolve_testStep ms tsf = Inr (pickleId, testStep)
        \<and> pickleStepId testStep = Some psid
        \<and> resolve_pickleStep ms pickleId psid = Inr (pk, pickleStep, doc)
        \<and> onAfterStep options = Some hook
        \<and> run_hook
             (hook \<lparr> result = testStepResult tsf, o_pickle = pk, o_pickleStep = pickleStep,
                     o_gherkinDocument = doc, o_testCaseStartedId = tsf_testCaseStartedId tsf,
                     o_testStepId = tsf_testStepId tsf \<rparr>) ext [] = Inr recorded
      \<longrightarrow> snd (testStepFinishedHandler ext config options tsf w) = Inr True
          \<and> state (fst (testStepFinishedHandler ext config options tsf w)) =
              StateStepFinished p
                (ms @ (if enabled (p_messages (resolve ext config))
                       then map (\<lambda>att. emptyEnvelope\<lparr>attachment := Some
                              \<lparr> a_testCaseStartedId = c, a_testStepId = s, a_body = data att,
                                a_mediaType = mediaType att,
                                a_contentEncoding = encoding att \<rparr>\<rparr>) recorded
                       else [])
                    @ [emptyEnvelope\<lparr>testStepFinished := Some tsf\<rparr>]) c)"
proof (intro conjI impI)
  show "run_hook (Attach (StringData body) (Some (''base64:'' @ mt)) continue caught) ext atts =
     run_hook continue ext (atts @ [\<lparr> data = body, mediaType = mt, encoding = BASE64 \<rparr>])"
    by (rule run_hook_text_base64)
  show "run_hook (Attach (StringData body) None continue caught) ext atts =
       run_hook continue ext
         (atts @ [\<lparr> data = body, mediaType = ''text/plain'', encoding = IDENTITY \<rparr>])"
    by (rule run_hook_text_default)
next
  assume h: "isTextTerminal config \<and> state w = StateStepStarted p ms c s
        \<and> resolve_testStep ms tsf = Inr (pickleId, testStep)
        \<and> pickleStepId testStep = Some psid
        \<and> resolve_pickleStep ms pickleId psid = Inr (pk, pickleStep, doc)
        \<and> onAfterStep options = Some hook
        \<and> run_hook
             (hook \<lparr> result = testStepResult tsf, o_pickle = pk, o_pickleStep = pickleStep,
                     o_gherkinDocument = doc, o_testCaseStartedId = tsf_testCaseStartedId tsf,
                     o_testStepId = tsf_testStepId tsf \<rparr>) ext [] = Inr recorded"
  then have ran: "run_onAfterStep ext options
      \<lparr> result = testStepResult tsf, o_pickle = pk, o_pickleStep = pickleStep,
        o_gherkinDocument = doc, o_testCaseStartedId = tsf_testCaseStartedId tsf,
        o_testStepId = tsf_testStepId tsf \<rparr> = Inr recorded"
    by (simp add: run_onAfterStep_def)
  note finished_step = testStepFinishedHandler_pickle_step
    [of config w p ms c s tsf pickleId testStep psid pk pickleStep doc ext options recorded]
  from h ran finished_step
  show "snd (testStepFinishedHandler ext config options tsf w) = Inr True"
    by blast
  from h ran finished_step
  show "state (fst (testStepFinishedHandler ext config options tsf w)) =
              StateStepFinished p
                (ms @ (if enabled (p_messages (resolve ext config))
                       then map (\<lambda>att. emptyEnvelope\<lparr>attachment := Some
                              \<lparr> a_testCaseStartedId = c, a_testStepId = s, a_body = data att,
                                a_mediaType = mediaType att,
                                a_contentEncoding = encoding att \<rparr>\<rparr>) recorded
                       else [])
                    @ [emptyEnvelope\<lparr>testStepFinished := Some tsf\<rparr>]) c"
    by blast
qed

theorem text_attachment_envelope_witness:
  "isTextTerminal ex_config
   \<and> state (ex_world ex_open_state) = StateStepStarted PrettyDisabled ex_open_buffer ''tcs1'' ''st1''
   \<and> run_hook (Attach (StringData ''QUJD'') (Some ''base64:image/png'')
                 (Attach (StringData ''note'') None Return Raise) Raise)
        (ex_externals True False) []
      = Inr [\<lparr> data = ''QUJD'', mediaType = ''image/png'', encoding = BASE64 \<rparr>,
             \<lparr> data = ''note'', mediaType = ''text/plain'', encoding = IDENTITY \<rparr>]
   \<and> snd (testStepFinishedHandler (ex_externals True False) ex_config
            \<lparr> onAfterStep = Some (\<lambda>args.
                 Attach (StringData ''QUJD'') (Some ''base64:image/png'')
                   (Attach (StringData ''note'') None Return Raise) Raise) \<rparr>
            ex_testStepFinished (ex_world ex_open_state)) = Inr True
   \<and> state (fst (testStepFinishedHandler (ex_externals True False) ex_config
            \<lparr> onAfterStep = Some (\<lambda>args.
                 Attach (StringData ''QUJD'') (Some ''base64:image/png'')
                   (Attach (StringData ''note'') None Return Raise) Raise) \<rparr>
            ex_testStepFinished (ex_world ex_open_state)))
      = StateStepFinished PrettyDisabled
          (ex_open_buffer @
             [emptyEnvelope\<lparr>attachment := Some
                \<lparr> a_testCaseStartedId = ''tcs1'', a_testStepId = ''st1'', a_body = ''QUJD'',
                  a_mediaType = ''image/png'', a_contentEncoding = BASE64 \<rparr>\<rparr>,
              emptyEnvelope\<lparr>attachment := Some
                \<lparr> a_testCaseStartedId = ''tcs1'', a_testStepId = ''st1'', a_body = ''note'',
                  a_mediaType = ''text/plain'', a_contentEncoding = IDENTITY \<rparr>\<rparr>,
              emptyEnvelope\<lparr>testStepFinished := Some ex_testStepFinished\<rparr>]) ''tcs1''"
proof -
  let ?E = "ex_externals True False"
  let ?hook = "\<lambda>args :: AfterStepOptions.
      Attach (StringData ''QUJD'') (Some ''base64:image/png'')
        (Attach (StringData ''note'') None Return Raise) Raise"
  let ?recorded = "[\<lparr> data = ''QUJD'', mediaType = ''image/png'', encoding = BASE64 \<rparr>,
             \<lparr> data = ''note'', mediaType = ''text/plain'', encoding = IDENTITY \<rparr>]"
  have tt: "isTextTerminal ex_config"
    by (simp add: ex_config_def)
  have st: "state (ex_world ex_open_state) = StateStepStarted PrettyDisabled ex_open_buffer ''tcs1'' ''st1''"
    by (simp add: ex_world_def ex_open_state_def)
  have first: "run_hook (Attach (StringData ''QUJD'') (Some ''base64:image/png'')
                 (Attach (StringData ''note'') None Return Raise) Raise) ?E []
      = run_hook (Attach (StringData ''note'') None Return Raise) ?E
          [\<lparr> data = ''QUJD'', mediaType = ''image/png'', encoding = BASE64 \<rparr>]"
    using text_attachment_envelope [THEN conjunct1,
        of "''QUJD''" "''image/png''" "Attach (StringData ''note'') None Return Raise" Raise ?E "[]"]
    by simp
  have second: "run_hook (Attach (StringData ''note'') None Return Raise) ?E
          [\<lparr> data = ''QUJD'', mediaType = ''image/png'', encoding = BASE64 \<rparr>]
      = Inr ?recorded"
    using text_attachment_envelope [THEN conjunct2, THEN conjunct1,
        of "''note''" Return Raise ?E
           "[\<lparr> data = ''QUJD'', mediaType = ''image/png'', encoding = BASE64 \<rparr>]"]
    by simp
  have ran: "run_hook (Attach (StringData ''QUJD'') (Some ''base64:image/png'')
                 (Attach (StringData ''note'') None Return Raise) Raise) ?E [] = Inr ?recorded"
    using first second by simp
  have prem: "isTextTerminal ex_config
      \<and> state (ex_world ex_open_state) = StateStepStarted PrettyDisabled ex_open_buffer ''tcs1'' ''st1''
      \<and> resolve_testStep ex_open_buffer ex_testStepFinished
          = Inr (''pk1'', \<lparr> ts_id = ''st1'', pickleStepId = Some ''ps1'', hookId = None \<rparr>)
      \<and> pickleStepId \<lparr> ts_id = ''st1'', pickleStepId = Some ''ps1'', hookId = None \<rparr> = Some ''ps1''
      \<and> resolve_pickleStep ex_open_buffer ''pk1'' ''ps1''
          = Inr (ex_pickle, \<lparr> ps_id = ''ps1'', ps_text = ''a step'' \<rparr>, \<lparr> gd_uri = Some ''a.feature'' \<rparr>)
      \<and> onAfterStep \<lparr> onAfterStep = Some ?hook \<rparr> = Some ?hook
      \<and> run_hook
           (?hook \<lparr> result = testStepResult ex_testStepFinished, o_pickle = ex_pickle,
                    o_pickleStep = \<lparr> ps_id = ''ps1'', ps_text = ''a step'' \<rparr>,
                    o_gherkinDocument = \<lparr> gd_uri = Some ''a.feature'' \<rparr>,
                    o_testCaseStartedId = tsf_testCaseStartedId ex_testStepFinished,
                    o_testStepId = tsf_testStepId ex_testStepFinished \<rparr>) ?E [] = Inr ?recorded"
    using tt st ran ex_resolve_testStep ex_resolve_pickleStep by simp
  note fin = text_attachment_envelope [THEN conjunct2, THEN conjunct2, rule_format, OF prem]
  have en: "enabled (p_messages (resolve ?E ex_config))"
    by simp
  from tt st ran fin en show ?thesis by simp
qed
subsection \<open>Binary attachments\<close>

text \<open>
  C5. A \<open>Buffer\<close> passed to \<open>attach\<close> without a media type is rejected with an error and
  nothing is recorded: the hook goes on with the attachments as they were and the error
  in its hands, and a hook that does not catch it ends with it. Whenever the hook of a
  finished step ends with an error, the handler ends with that error and the state is as
  before, without the attachments the hook made earlier either. With a media type the
  call records the base64 text of the bytes with the encoding \<open>BASE64\<close>, and when the
  hook returns the buffer holds the envelope of that attachment, with that body, media
  type and encoding, first among the envelopes of the hook.
\<close>

theorem buffer_attachment:
  "attach ext atts (BufferData b) None =
     Inl (Error ''Buffer attachments must specify a media type'')
   \<and> run_hook (Attach (BufferData b) None continue caught) ext atts =
       run_hook (caught (Error ''Buffer attachments must specify a media type'')) ext atts
   \<and> run_hook (Attach (BufferData b) None continue Raise) ext atts =
       Inl (Error ''Buffer attachments must specify a media type'')
   \<and> run_hook (Attach (BufferData b) (Some m) continue caught) ext atts =
       run_hook continue ext
         (atts @ [\<lparr> data = toBase64 ext b, mediaType = m, encoding = BASE64 \<rparr>])
   \<and> (isTextTerminal config \<and> state w = StateStepStarted p ms c s
        \<and> resolve_testStep ms tsf = Inr (pickleId, testStep)
        \<and> pickleStepId testStep = Some psid
        \<and> resolve_pickleStep ms pickleId psid = Inr (pk, pickleStep, doc)
        \<and> onAfterStep options = Some hook
        \<and> hook \<lparr> result = testStepResult tsf, o_pickle = pk, o_pickleStep = pickleStep,
                  o_gherkinDocument = doc, o_testCaseStartedId = tsf_testCaseStartedId tsf,
                  o_testStepId = tsf_testStepId tsf \<rparr>
            = Attach (BufferData b) (Some m) continue caught
        \<and> run_hook continue ext
             [\<lparr> data = toBase64 ext b, mediaType = m, encoding = BASE64 \<rparr>] = Inr recorded
        \<and> enabled (p_messages (resolve ext config))
      \<longrightarrow> snd (testStepFinishedHandler ext config options tsf w) = Inr True
          \<and> (\<exists>more. state (fst (testStepFinishedHandler ext config options tsf w)) =
                StateStepFinished p
                  (ms @ [emptyEnvelope\<lparr>attachment := Some
                           \<lparr> a_testCaseStartedId = c, a_testStepId = s,
                             a_body = toBase64 ext b, a_mediaType = m,
                             a_contentEncoding = BASE64 \<rparr>\<rparr>]
                      @ map (\<lambda>att. emptyEnvelope\<lparr>attachment := Some
                              \<lparr> a_testCaseStartedId = c, a_testStepId = s, a_body = data att,
                                a_mediaType = mediaType att,
                                a_contentEncoding = encoding att \<rparr>\<rparr>) more
                      @ [emptyEnvelope\<lparr>testStepFinished := Some tsf\<rparr>]) c
              \<and> recorded = \<lparr> data = toBase64 ext b, mediaType = m, encoding = BASE64 \<rparr> # more))
   \<and> (isTextTerminal config \<and> state w = StateStepStarted p ms c s
        \<and> resolve_testStep ms tsf = Inr (pickleId, testStep)
        \<and> pickleStepId testStep = Some psid
        \<and> resolve_pickleStep ms pickleId psid = Inr (pk, pickleStep, doc)
        \<and> onAfterStep options = Some hook
        \<and> run_hook
             (hook \<lparr> result = testStepResult tsf, o_pickle = pk, o_pickleStep = pickleStep,
                     o_gherkinDocument = doc, o_testCaseStartedId = tsf_testCaseStartedId tsf,
                     o_testStepId = tsf_testStepId tsf \<rparr>) ext [] = Inl e
      \<longrightarrow> snd (testStepFinishedHandler ext config options tsf w) = Inl e
          \<and> state (fst (testStepFinishedHandler ext config options tsf w)) = state w)"
proof (intro conjI impI)
  show "attach ext atts (BufferData b) None =
     Inl (Error ''Buffer attachments must specify a media type'')"
    by (rule attach_buffer_no_media_type)
  show "run_hook (Attach (BufferData b) None continue caught) ext atts =
       run_hook (caught (Error ''Buffer attachments must specify a media type'')) ext atts"
    by (rule run_hook_buffer_rejected)
  show "run_hook (Attach (BufferData b) None continue Raise) ext atts =
       Inl (Error ''Buffer attachments must specify a media type'')"
    by (simp add: attach_buffer_no_media_type)
  show "run_hook (Attach (BufferData b) (Some m) continue caught) ext atts =
       run_hook continue ext
         (atts @ [\<lparr> data = toBase64 ext b, mediaType = m, encoding = BASE64 \<rparr>])"
    by (rule run_hook_buffer_media_type)
next
  assume h: "isTextTerminal config \<and> state w = StateStepStarted p ms c s
        \<and> resolve_testStep ms tsf = Inr (pickleId, testStep)
        \<and> pickleStepId testStep = Some psid
        \<and> resolve_pickleStep ms pickleId psid = Inr (pk, pickleStep, doc)
        \<and> onAfterStep options = Some hook
        \<and> hook \<lparr> result = testStepResult tsf, o_pickle = pk, o_pickleStep = pickleStep,
                  o_gherkinDocument = doc, o_testCaseStartedId = tsf_testCaseStartedId tsf,
                  o_testStepId = tsf_testStepId tsf \<rparr>
            = Attach (BufferData b) (Some m) continue caught
        \<and> run_hook continue ext
             [\<lparr> data = toBase64 ext b, mediaType = m, encoding = BASE64 \<rparr>] = Inr recorded
        \<and> enabled (p_messages (resolve ext config))"
  let ?first = "\<lparr> data = toBase64 ext b, mediaType = m, encoding = BASE64 \<rparr>"
  from h have ran: "run_onAfterStep ext options
      \<lparr> result = testStepResult tsf, o_pickle = pk, o_pickleStep = pickleStep,
        o_gherkinDocument = doc, o_testCaseStartedId = tsf_testCaseStartedId tsf,
        o_testStepId = tsf_testStepId tsf \<rparr> = Inr recorded"
    by (simp add: run_onAfterStep_def attach_buffer_media_type)
  from h obtain more where more: "recorded = ?first # more"
    using run_hook_keeps [of continue ext "[?first]" recorded] by auto
  note finished_step = testStepFinishedHandler_pickle_step
    [of config w p ms c s tsf pickleId testStep psid pk pickleStep doc ext options recorded]
  from h ran finished_step
  show "snd (testStepFinishedHandler ext config options tsf w) = Inr True"
    by blast
  from h ran finished_step
  have "state (fst (testStepFinishedHandler ext config options tsf w)) =
      StateStepFinished p
        (ms @ map (\<lambda>att. emptyEnvelope\<lparr>attachment := Some
                    \<lparr> a_testCaseStartedId = c, a_testStepId = s, a_body = data att,
                      a_mediaType = mediaType att,
                      a_contentEncoding = encoding att \<rparr>\<rparr>) recorded
            @ [emptyEnvelope\<lparr>testStepFinished := Some tsf\<rparr>]) c"
    by simp
  with more
  show "\<exists>more. state (fst (testStepFinishedHandler ext config options tsf w)) =
                StateStepFinished p
                  (ms @ [emptyEnvelope\<lparr>attachment := Some
                           \<lparr> a_testCaseStartedId = c, a_testStepId = s,
                             a_body = toBase64 ext b, a_mediaType = m,
                             a_contentEncoding = BASE64 \<rparr>\<rparr>]
                      @ map (\<lambda>att. emptyEnvelope\<lparr>attachment := Some
                              \<lparr> a_testCaseStartedId = c, a_testStepId = s, a_body = data att,
                                a_mediaType = mediaType att,
                                a_contentEncoding = encoding att \<rparr>\<rparr>) more
                      @ [emptyEnvelope\<lparr>testStepFinished := Some tsf\<rparr>]) c
              \<and> recorded = \<lparr> data = toBase64 ext b, mediaType = m, encoding = BASE64 \<rparr> # more"
    by (intro exI [of _ more]) simp
next
  assume h: "isTextTerminal config \<and> state w = StateStepStarted p ms c s
        \<and> resolve_testStep ms tsf = Inr (pickleId, testStep)
        \<and> pickleStepId testStep = Some psid
        \<and> resolve_pickleStep ms pickleId psid = Inr (pk, pickleStep, doc)
        \<and> onAfterStep options = Some hook
        \<and> run_hook
             (hook \<lparr> result = testStepResult tsf, o_pickle = pk, o_pickleStep = pickleStep,
                     o_gherkinDocument = doc, o_testCaseStartedId = tsf_testCaseStartedId tsf,
                     o_testStepId = tsf_testStepId tsf \<rparr>) ext [] = Inl e"
  then have ran: "run_onAfterStep ext options
      \<lparr> result = testStepResult tsf, o_pickle = pk, o_pickleStep = pickleStep,
        o_gherkinDocument = doc, o_testCaseStartedId = tsf_testCaseStartedId tsf,
        o_testStepId = tsf_testStepId tsf \<rparr> = Inl e"
    by (simp add: run_onAfterStep_def)
  note failed_step = testStepFinishedHandler_hook_error
    [of config w p ms c s tsf pickleId testStep psid pk pickleStep doc ext options e]
  from h ran failed_step
  have run: "testStepFinishedHandler ext config options tsf w =
      (emit_if_pretty p (emptyEnvelope\<lparr>testStepFinished := Some tsf\<rparr>) w, Inl e)"
    by blast
  show "snd (testStepFinishedHandler ext config options tsf w) = Inl e"
    by (simp add: run)
  show "state (fst (testStepFinishedHandler ext config options tsf w)) = state w"
    by (simp add: run)
qed

theorem buffer_attachment_witness:
  "isTextTerminal ex_config
   \<and> state (ex_world ex_open_state) = StateStepStarted PrettyDisabled ex_open_buffer ''tcs1'' ''st1''
   \<and> snd (testStepFinishedHandler (ex_externals True False) ex_config
            \<lparr> onAfterStep = Some (\<lambda>args. Attach (BufferData ''ABC'') (Some ''image/png'') Return Raise) \<rparr>
            ex_testStepFinished (ex_world ex_open_state)) = Inr True
   \<and> state (fst (testStepFinishedHandler (ex_externals True False) ex_config
            \<lparr> onAfterStep = Some (\<lambda>args. Attach (BufferData ''ABC'') (Some ''image/png'') Return Raise) \<rparr>
            ex_testStepFinished (ex_world ex_open_state)))
      = StateStepFinished PrettyDisabled
          (ex_open_buffer @
             [emptyEnvelope\<lparr>attachment := Some
                \<lparr> a_testCaseStartedId = ''tcs1'', a_testStepId = ''st1'', a_body = ''QUJD'',
                  a_mediaType = ''image/png'', a_contentEncoding = BASE64 \<rparr>\<rparr>,
              emptyEnvelope\<lparr>testStepFinished := Some ex_testStepFinished\<rparr>]) ''tcs1''
   \<and> snd (testStepFinishedHandler (ex_externals True False) ex_config
            \<lparr> onAfterStep = Some (\<lambda>args.
                 Attach (StringData ''note'') None (Attach (BufferData ''ABC'') None Return Raise) Raise) \<rparr>
            ex_testStepFinished (ex_world ex_open_state))
      = Inl (Error ''Buffer attachments must specify a media type'')
   \<and> state (fst (testStepFinishedHandler (ex_externals True False) ex_config
            \<lparr> onAfterStep = Some (\<lambda>args.
                 Attach (StringData ''note'') None (Attach (BufferData ''ABC'') None Return Raise) Raise) \<rparr>
            ex_testStepFinished (ex_world ex_open_state)))
      = ex_open_state"
proof -
  let ?E = "ex_externals True False"
  let ?good = "\<lambda>args :: AfterStepOptions. Attach (BufferData ''ABC'') (Some ''image/png'') Return Raise"
  let ?bad = "\<lambda>args :: AfterStepOptions.
      Attach (StringData ''note'') None (Attach (BufferData ''ABC'') None Return Raise) Raise"
  let ?args = "\<lparr> result = testStepResult ex_testStepFinished, o_pickle = ex_pickle,
      o_pickleStep = \<lparr> ps_id = ''ps1'', ps_text = ''a step'' \<rparr>,
      o_gherkinDocument = \<lparr> gd_uri = Some ''a.feature'' \<rparr>,
      o_testCaseStartedId = tsf_testCaseStartedId ex_testStepFinished,
      o_testStepId = tsf_testStepId ex_testStepFinished \<rparr>"
  have tt: "isTextTerminal ex_config"
    by (simp add: ex_config_def)
  have st: "state (ex_world ex_open_state) = StateStepStarted PrettyDisabled ex_open_buffer ''tcs1'' ''st1''"
    by (simp add: ex_world_def ex_open_state_def)
  have s4: "state (ex_world ex_open_state) = ex_open_state"
    by (simp add: ex_world_def)
  have e1: "toBase64 ?E ''ABC'' = ''QUJD''"
    by (simp add: ex_externals_def)
  have en: "enabled (p_messages (resolve ?E ex_config))"
    by simp
  have rest: "run_hook Return ?E [\<lparr> data = toBase64 ?E ''ABC'', mediaType = ''image/png'', encoding = BASE64 \<rparr>]
      = Inr [\<lparr> data = toBase64 ?E ''ABC'', mediaType = ''image/png'', encoding = BASE64 \<rparr>]"
    by simp
  have prem_good: "isTextTerminal ex_config
      \<and> state (ex_world ex_open_state) = StateStepStarted PrettyDisabled ex_open_buffer ''tcs1'' ''st1''
      \<and> resolve_testStep ex_open_buffer ex_testStepFinished
          = Inr (''pk1'', \<lparr> ts_id = ''st1'', pickleStepId = Some ''ps1'', hookId = None \<rparr>)
      \<and> pickleStepId \<lparr> ts_id = ''st1'', pickleStepId = Some ''ps1'', hookId = None \<rparr> = Some ''ps1''
      \<and> resolve_pickleStep ex_open_buffer ''pk1'' ''ps1''
          = Inr (ex_pickle, \<lparr> ps_id = ''ps1'', ps_text = ''a step'' \<rparr>, \<lparr> gd_uri = Some ''a.feature'' \<rparr>)
      \<and> onAfterStep \<lparr> onAfterStep = Some ?good \<rparr> = Some ?good
      \<and> ?good ?args = Attach (BufferData ''ABC'') (Some ''image/png'') Return Raise
      \<and> run_hook Return ?E [\<lparr> data = toBase64 ?E ''ABC'', mediaType = ''image/png'', encoding = BASE64 \<rparr>]
          = Inr [\<lparr> data = toBase64 ?E ''ABC'', mediaType = ''image/png'', encoding = BASE64 \<rparr>]
      \<and> enabled (p_messages (resolve ?E ex_config))"
    using tt st rest en ex_resolve_testStep ex_resolve_pickleStep by simp
  have step1: "run_hook (?bad ?args) ?E []
      = run_hook (Attach (BufferData ''ABC'') None Return Raise) ?E
          [\<lparr> data = ''note'', mediaType = ''text/plain'', encoding = IDENTITY \<rparr>]"
    by (simp add: attach_text_default)
  have step2: "run_hook (Attach (BufferData ''ABC'') None Return Raise) ?E
          [\<lparr> data = ''note'', mediaType = ''text/plain'', encoding = IDENTITY \<rparr>]
      = Inl (Error ''Buffer attachments must specify a media type'')"
    by (rule buffer_attachment [THEN conjunct2, THEN conjunct2, THEN conjunct1])
  have prem_bad: "isTextTerminal ex_config
      \<and> state (ex_world ex_open_state) = StateStepStarted PrettyDisabled ex_open_buffer ''tcs1'' ''st1''
      \<and> resolve_testStep ex_open_buffer ex_testStepFinished
          = Inr (''pk1'', \<lparr> ts_id = ''st1'', pickleStepId = Some ''ps1'', hookId = None \<rparr>)
      \<and> pickleStepId \<lparr> ts_id = ''st1'', pickleStepId = Some ''ps1'', hookId = None \<rparr> = Some ''ps1''
      \<and> resolve_pickleStep ex_open_buffer ''pk1'' ''ps1''
          = Inr (ex_pickle, \<lparr> ps_id = ''ps1'', ps_text = ''a step'' \<rparr>, \<lparr> gd_uri = Some ''a.feature'' \<rparr>)
      \<and> onAfterStep \<lparr> onAfterStep = Some ?bad \<rparr> = Some ?bad
      \<and> run_hook (?bad ?args) ?E [] = Inl (Error ''Buffer attachments must specify a media type'')"
    using tt st step1 step2 ex_resolve_testStep ex_resolve_pickleStep by simp
  note good = buffer_attachment [THEN conjunct2, THEN conjunct2, THEN conjunct2, THEN conjunct2,
      THEN conjunct1, rule_format, OF prem_good]
  note bad = buffer_attachment [THEN conjunct2, THEN conjunct2, THEN conjunct2, THEN conjunct2,
      THEN conjunct2, rule_format, OF prem_bad]
  from good obtain more where
    g1: "snd (testStepFinishedHandler ?E ex_config \<lparr> onAfterStep = Some ?good \<rparr>
            ex_testStepFinished (ex_world ex_open_state)) = Inr True"
    and g2: "state (fst (testStepFinishedHandler ?E ex_config \<lparr> onAfterStep = Some ?good \<rparr>
            ex_testStepFinished (ex_world ex_open_state))) =
        StateStepFinished PrettyDisabled
          (ex_open_buffer @ [emptyEnvelope\<lparr>attachment := Some
                   \<lparr> a_testCaseStartedId = ''tcs1'', a_testStepId = ''st1'',
                     a_body = toBase64 ?E ''ABC'', a_mediaType = ''image/png'',
                     a_contentEncoding = BASE64 \<rparr>\<rparr>]
              @ map (\<lambda>att. emptyEnvelope\<lparr>attachment := Some
                      \<lparr> a_testCaseStartedId = ''tcs1'', a_testStepId = ''st1'', a_body = data att,
                        a_mediaType = mediaType att,
                        a_contentEncoding = encoding att \<rparr>\<rparr>) more
              @ [emptyEnvelope\<lparr>testStepFinished := Some ex_testStepFinished\<rparr>]) ''tcs1''"
    and g3: "[\<lparr> data = toBase64 ?E ''ABC'', mediaType = ''image/png'', encoding = BASE64 \<rparr>]
        = \<lparr> data = toBase64 ?E ''ABC'', mediaType = ''image/png'', encoding = BASE64 \<rparr> # more"
    by blast
  from g3 have "more = []" by simp
  with g2 e1 have g2': "state (fst (testStepFinishedHandler ?E ex_config \<lparr> onAfterStep = Some ?good \<rparr>
            ex_testStepFinished (ex_world ex_open_state))) =
        StateStepFinished PrettyDisabled
          (ex_open_buffer @
             [emptyEnvelope\<lparr>attachment := Some
                \<lparr> a_testCaseStartedId = ''tcs1'', a_testStepId = ''st1'', a_body = ''QUJD'',
                  a_mediaType = ''image/png'', a_contentEncoding = BASE64 \<rparr>\<rparr>,
              emptyEnvelope\<lparr>testStepFinished := Some ex_testStepFinished\<rparr>]) ''tcs1''"
    by simp
  from tt st g1 g2' bad s4 show ?thesis by simp
qed
subsection \<open>Screenshots\<close>

text \<open>
  C6. In a state other than \<open>step-started\<close> a captured screenshot changes nothing and
  the details are returned as they came. Whenever the handler changes anything, the state
  was \<open>step-started\<close> and the change is one attachment envelope at the end of the buffer,
  with the ids of the open test case and test step.
\<close>

theorem screenshot_only_in_step_started:
  "(state_tag (state w) \<noteq> ''step-started'' \<longrightarrow>
      afterScreenshotHandler ext config details w = (w, Inr details))
   \<and> (fst (afterScreenshotHandler ext config details w) \<noteq> w \<longrightarrow>
        (\<exists>p ms c s body.
           state w = StateStepStarted p ms c s
           \<and> fst (afterScreenshotHandler ext config details w) =
               w\<lparr>state := StateStepStarted p
                    (ms @ [emptyEnvelope\<lparr>attachment := Some
                       \<lparr> a_testCaseStartedId = c, a_testStepId = s, a_body = body,
                         a_mediaType = ''image/png'', a_contentEncoding = BASE64 \<rparr>\<rparr>]) c s\<rparr>))"
proof (intro conjI impI)
  assume "state_tag (state w) \<noteq> ''step-started''"
  then show "afterScreenshotHandler ext config details w = (w, Inr details)"
    by (rule screenshot_other_state)
next
  assume changed: "fst (afterScreenshotHandler ext config details w) \<noteq> w"
  show "\<exists>p ms c s body.
           state w = StateStepStarted p ms c s
           \<and> fst (afterScreenshotHandler ext config details w) =
               w\<lparr>state := StateStepStarted p
                    (ms @ [emptyEnvelope\<lparr>attachment := Some
                       \<lparr> a_testCaseStartedId = c, a_testStepId = s, a_body = body,
                         a_mediaType = ''image/png'', a_contentEncoding = BASE64 \<rparr>\<rparr>]) c s\<rparr>"
  proof (cases "state w")
    case (StateStepStarted p ms c s)
    with changed show ?thesis
      by (auto simp add: afterScreenshotHandler_def Let_def split: if_splits option.splits)
  qed (use changed in \<open>simp_all add: afterScreenshotHandler_def Let_def\<close>)
qed

theorem screenshot_only_in_step_started_witness:
  "state_tag (state (ex_world (StateTestStarted PrettyDisabled [] ''tcs1''))) \<noteq> ''step-started''
   \<and> afterScreenshotHandler (ex_externals True False) ex_config ex_details
        (ex_world (StateTestStarted PrettyDisabled [] ''tcs1''))
      = (ex_world (StateTestStarted PrettyDisabled [] ''tcs1''), Inr ex_details)
   \<and> fst (afterScreenshotHandler (ex_externals True False) ex_config ex_details
             ((ex_world (StateStepStarted PrettyDisabled [] ''tcs1'' ''st1''))
                \<lparr>files := [''/shots/a.png'' \<mapsto> ''ABC'']\<rparr>))
      \<noteq> (ex_world (StateStepStarted PrettyDisabled [] ''tcs1'' ''st1''))
            \<lparr>files := [''/shots/a.png'' \<mapsto> ''ABC'']\<rparr>
   \<and> (\<exists>p ms c s body.
          state ((ex_world (StateStepStarted PrettyDisabled [] ''tcs1'' ''st1''))
                   \<lparr>files := [''/shots/a.png'' \<mapsto> ''ABC'']\<rparr>) = StateStepStarted p ms c s
          \<and> fst (afterScreenshotHandler (ex_externals True False) ex_config ex_details
                   ((ex_world (StateStepStarted PrettyDisabled [] ''tcs1'' ''st1''))
                      \<lparr>files := [''/shots/a.png'' \<mapsto> ''ABC'']\<rparr>)) =
              ((ex_world (StateStepStarted PrettyDisabled [] ''tcs1'' ''st1''))
                 \<lparr>files := [''/shots/a.png'' \<mapsto> ''ABC'']\<rparr>)
                \<lparr>state := StateStepStarted p
                    (ms @ [emptyEnvelope\<lparr>attachment := Some
                       \<lparr> a_testCaseStartedId = c, a_testStepId = s, a_body = body,
                         a_mediaType = ''image/png'', a_contentEncoding = BASE64 \<rparr>\<rparr>]) c s\<rparr>)"
proof -
  have changed:
    "fst (afterScreenshotHandler (ex_externals True False) ex_config ex_details
             ((ex_world (StateStepStarted PrettyDisabled [] ''tcs1'' ''st1''))
                \<lparr>files := [''/shots/a.png'' \<mapsto> ''ABC'']\<rparr>))
      \<noteq> (ex_world (StateStepStarted PrettyDisabled [] ''tcs1'' ''st1''))
            \<lparr>files := [''/shots/a.png'' \<mapsto> ''ABC'']\<rparr>"
    by (simp add: afterScreenshotHandler_def ex_world_def ex_externals_def ex_config_def
          ex_details_def Let_def)
  have other:
    "state_tag (state (ex_world (StateTestStarted PrettyDisabled [] ''tcs1''))) \<noteq> ''step-started''"
    by (simp add: ex_world_def)
  show ?thesis
    using changed other
      screenshot_only_in_step_started
        [of "ex_world (StateTestStarted PrettyDisabled [] ''tcs1'')" "ex_externals True False"
            ex_config ex_details]
      screenshot_only_in_step_started
        [of "(ex_world (StateStepStarted PrettyDisabled [] ''tcs1'' ''st1''))
               \<lparr>files := [''/shots/a.png'' \<mapsto> ''ABC'']\<rparr>" "ex_externals True False"
            ex_config ex_details]
    by blast
qed

text \<open>
  C10. The handler always returns the details it was given, without an error. When the
  file at the path of the screenshot cannot be read, nothing changes: no envelope is
  appended.
\<close>

theorem screenshot_returns_details:
  "snd (afterScreenshotHandler ext config details w) = Inr details
   \<and> (files w (path details) = None \<longrightarrow>
        afterScreenshotHandler ext config details w = (w, Inr details))"
  by (simp add: afterScreenshotHandler_def Let_def split: State.split option.split)

theorem screenshot_returns_details_witness:
  "files (ex_world (StateStepStarted PrettyDisabled [] ''tcs1'' ''st1'')) (path ex_details) = None
   \<and> afterScreenshotHandler (ex_externals True False) ex_config ex_details
        (ex_world (StateStepStarted PrettyDisabled [] ''tcs1'' ''st1''))
      = (ex_world (StateStepStarted PrettyDisabled [] ''tcs1'' ''st1''), Inr ex_details)"
  using screenshot_returns_details
    [of "ex_externals True False" ex_config ex_details
        "ex_world (StateStepStarted PrettyDisabled [] ''tcs1'' ''st1'')"]
  by (simp add: ex_world_def)

end
